theory Spec2Isabelle
  imports Main "HOL-Library.Word"
begin

section \<open>Machine integers\<close>

text \<open>
  Go's \<open>int\<close> is 64 bits wide on the platforms the tool is built for, and its
  arithmetic wraps around silently. Coordinates are kept as \<open>int\<close>; every addition and
  subtraction the program (or the image library it calls) performs is followed by
  \<open>i64\<close>, the wrap-around into the signed 64-bit range.
\<close>

definition i64 :: "int \<Rightarrow> int" where
  "i64 v = (v + 2 ^ 63) mod 2 ^ 64 - 2 ^ 63"

section \<open>Go's image package: points, rectangles, colours, images\<close>

text \<open>
  \<open>image.Point\<close> and \<open>image.Rectangle\<close> with the methods the program reaches:
  \<open>Add\<close>, \<open>Sub\<close>, \<open>In\<close>, \<open>Empty\<close>, \<open>Intersect\<close>, \<open>Dx\<close>, \<open>Dy\<close>.
  The rectangle's fields \<open>Min\<close> and \<open>Max\<close> are named \<open>MinP\<close> and \<open>MaxP\<close>.
\<close>

record Point =
  X :: int
  Y :: int

record Rectangle =
  MinP :: Point
  MaxP :: Point

definition Pt :: "int \<Rightarrow> int \<Rightarrow> Point" where
  "Pt x y = \<lparr>Point.X = x, Point.Y = y\<rparr>"

definition Point_Add :: "Point \<Rightarrow> Point \<Rightarrow> Point" where
  "Point_Add p q = Pt (i64 (Point.X p + Point.X q)) (i64 (Point.Y p + Point.Y q))"

definition Point_Sub :: "Point \<Rightarrow> Point \<Rightarrow> Point" where
  "Point_Sub p q = Pt (i64 (Point.X p - Point.X q)) (i64 (Point.Y p - Point.Y q))"

definition Point_In :: "Point \<Rightarrow> Rectangle \<Rightarrow> bool" where
  "Point_In p r =
     (Point.X (MinP r) \<le> Point.X p \<and> Point.X p < Point.X (MaxP r) \<and>
      Point.Y (MinP r) \<le> Point.Y p \<and> Point.Y p < Point.Y (MaxP r))"

definition ZR :: Rectangle where
  "ZR = \<lparr>MinP = Pt 0 0, MaxP = Pt 0 0\<rparr>"

definition Rectangle_Empty :: "Rectangle \<Rightarrow> bool" where
  "Rectangle_Empty r =
     (Point.X (MinP r) \<ge> Point.X (MaxP r) \<or> Point.Y (MinP r) \<ge> Point.Y (MaxP r))"

definition Rectangle_Dx :: "Rectangle \<Rightarrow> int" where
  "Rectangle_Dx r = i64 (Point.X (MaxP r) - Point.X (MinP r))"

definition Rectangle_Dy :: "Rectangle \<Rightarrow> int" where
  "Rectangle_Dy r = i64 (Point.Y (MaxP r) - Point.Y (MinP r))"

definition Rectangle_Add :: "Rectangle \<Rightarrow> Point \<Rightarrow> Rectangle" where
  "Rectangle_Add r p = \<lparr>MinP = Point_Add (MinP r) p, MaxP = Point_Add (MaxP r) p\<rparr>"

text \<open>
  \<open>Intersect\<close> raises the minimum and lowers the maximum field by field, and gives the
  zero rectangle \<open>ZR\<close> when what is left is empty.
\<close>

definition Rectangle_Intersect :: "Rectangle \<Rightarrow> Rectangle \<Rightarrow> Rectangle" where
  "Rectangle_Intersect r s =
     (let r' = \<lparr>MinP = Pt (if Point.X (MinP r) < Point.X (MinP s) then Point.X (MinP s)
                            else Point.X (MinP r))
                           (if Point.Y (MinP r) < Point.Y (MinP s) then Point.Y (MinP s)
                            else Point.Y (MinP r)),
                  MaxP = Pt (if Point.X (MaxP r) > Point.X (MaxP s) then Point.X (MaxP s)
                            else Point.X (MaxP r))
                           (if Point.Y (MaxP r) > Point.Y (MaxP s) then Point.Y (MaxP s)
                            else Point.Y (MaxP r))\<rparr>
      in if Rectangle_Empty r' then ZR else r')"

text \<open>
  \<open>color.RGBA\<close>: four bytes. The zero value is the fully transparent pixel a fresh
  \<open>image.RGBA\<close> holds everywhere.
\<close>

datatype color_RGBA = Color "8 word" "8 word" "8 word" "8 word"

definition transparent :: color_RGBA where
  "transparent = Color 0 0 0 0"

text \<open>
  The decoded sheet is an \<open>image.Image\<close>: its bounds and, for every point, its colour.
  \<open>At\<close> is the colour as \<open>draw.Draw\<close> stores it in an RGBA destination (converted by
  the RGBA colour model).
\<close>

record Image =
  Bounds :: Rectangle
  At :: "Point \<Rightarrow> color_RGBA"

text \<open>
  \<open>image.RGBA\<close>, the canvas: its rectangle and the pixel stored for each point of it
  (the byte slice \<open>Pix\<close> read through \<open>PixOffset\<close>).
\<close>

record image_RGBA =
  Pix :: "Point \<Rightarrow> color_RGBA"
  Rect :: Rectangle

text \<open>
  \<open>image.NewRGBA\<close> computes the buffer length with \<open>mul3NonNeg\<close>, which answers
  \<open>-1\<close> for a negative factor or a product that leaves the range of \<open>int\<close>, and
  panics on \<open>-1\<close>. \<open>None\<close> is the panic. Running out of memory for a huge buffer is
  outside the model.
\<close>

definition mul3NonNeg :: "int \<Rightarrow> int \<Rightarrow> int \<Rightarrow> int" where
  "mul3NonNeg x y z =
     (if x < 0 \<or> y < 0 \<or> z < 0 then - 1
      else if x * y \<ge> 2 ^ 64 then - 1
      else if x * y * z \<ge> 2 ^ 64 then - 1
      else if x * y * z \<ge> 2 ^ 63 then - 1
      else x * y * z)"

definition NewRGBA :: "Rectangle \<Rightarrow> image_RGBA option" where
  "NewRGBA r =
     (if mul3NonNeg 4 (Rectangle_Dx r) (Rectangle_Dy r) < 0 then None
      else Some \<lparr>Pix = (\<lambda>p. transparent), Rect = r\<rparr>)"

section \<open>Go's image/draw package: Draw with the Src operator\<close>

text \<open>
  \<open>draw.Draw(dst, r, src, sp, draw.Src)\<close> is \<open>DrawMask\<close> with no mask. It first clips
  \<open>r\<close> against the destination's bounds and against the source's bounds moved to the
  destination's coordinates, moving \<open>sp\<close> along with the rectangle's corner; when
  nothing is left it returns; otherwise every point of the clipped rectangle receives the
  source's colour at the aligned point. Nothing outside the clipped rectangle is written.
\<close>

definition clip :: "Rectangle \<Rightarrow> Rectangle \<Rightarrow> Rectangle \<Rightarrow> Point \<Rightarrow> Rectangle \<times> Point" where
  "clip dstBounds r srcBounds sp =
     (let orig = MinP r;
          r1 = Rectangle_Intersect r dstBounds;
          r2 = Rectangle_Intersect r1 (Rectangle_Add srcBounds (Point_Sub orig sp));
          dx = i64 (Point.X (MinP r2) - Point.X orig);
          dy = i64 (Point.Y (MinP r2) - Point.Y orig)
      in if dx = 0 \<and> dy = 0 then (r2, sp)
         else (r2, Pt (i64 (Point.X sp + dx)) (i64 (Point.Y sp + dy))))"

definition draw_Draw :: "image_RGBA \<Rightarrow> Rectangle \<Rightarrow> Image \<Rightarrow> Point \<Rightarrow> image_RGBA" where
  "draw_Draw dst r src sp =
     (case clip (Rect dst) r (Bounds src) sp of
        (r', sp') \<Rightarrow>
          if Rectangle_Empty r' then dst
          else dst\<lparr>Pix :=
                 (\<lambda>p. if Point_In p r'
                      then At src (Pt (i64 (Point.X sp' + (Point.X p - Point.X (MinP r'))))
                                      (i64 (Point.Y sp' + (Point.Y p - Point.Y (MinP r')))))
                      else Pix dst p)\<rparr>)"

section \<open>The manifest\<close>

record Size =
  Width :: int
  Height :: int

definition Size_Min :: "Size \<Rightarrow> Point" where
  "Size_Min sz = Pt 0 0"

definition Size_Max :: "Size \<Rightarrow> Point" where
  "Size_Max sz = Pt (Size.Width sz) (Size.Height sz)"

definition Size_Rect :: "Size \<Rightarrow> Rectangle" where
  "Size_Rect sz = \<lparr>MinP = Size_Min sz, MaxP = Size_Max sz\<rparr>"

record Frame =
  Width :: int
  Height :: int
  X :: int
  Y :: int

definition Frame_Min :: "Frame \<Rightarrow> Point" where
  "Frame_Min fr = Pt (Frame.X fr) (Frame.Y fr)"

definition Frame_Max :: "Frame \<Rightarrow> Point" where
  "Frame_Max fr =
     Pt (i64 (Frame.X fr + Frame.Width fr)) (i64 (Frame.Y fr + Frame.Height fr))"

definition Frame_Rect :: "Frame \<Rightarrow> Rectangle" where
  "Frame_Rect fr = \<lparr>MinP = Frame_Min fr, MaxP = Frame_Max fr\<rparr>"

record Texture =
  FileName :: string
  Frame :: Frame
  Rotated :: bool
  SourceSize :: Size
  SpriteSourceSize :: Frame
  Trimmed :: bool

text \<open>
  A sheet's \<open>Scale\<close> (a float64 that the program never reads) is left out.
\<close>

record Sheet =
  Format :: string
  Textures :: "Texture list"
  Image :: string
  Size :: Size

record Pack =
  Meta :: "string \<rightharpoonup> string"
  Sheets :: "Sheet list"

record Unpacker = Pack +
  PackName :: string
  InputDir :: string
  OutputDir :: string
  Workers :: int

section \<open>The sprite of one texture\<close>

text \<open>
  Lines 93 to 99 of \<open>unpackTexture\<close>: a fresh canvas over \<open>SourceSize\<close>, and one
  \<open>draw.Draw\<close> into its region \<open>SpriteSourceSize\<close> from the sheet, starting at the
  corner of \<open>Frame\<close>. The sheet is \<open>None\<close> for a nil image, on which \<open>draw.Draw\<close>
  panics; the result is \<open>None\<close> for a panic. Neither \<open>Rotated\<close> nor \<open>Trimmed\<close>, nor
  the width and height of \<open>Frame\<close>, is read.
\<close>

definition build_sprite :: "Texture \<Rightarrow> Image option \<Rightarrow> image_RGBA option" where
  "build_sprite texture img =
     (let spriteSize = Size_Rect (SourceSize texture) in
      case NewRGBA spriteSize of
        None \<Rightarrow> None
      | Some sprite \<Rightarrow>
          (let destFrame = Frame_Rect (SpriteSourceSize texture);
               sourceFrame = Frame_Rect (Frame texture)
           in case img of
                None \<Rightarrow> None
              | Some src \<Rightarrow> Some (draw_Draw sprite destFrame src (MinP sourceFrame))))"

text \<open>
  \<open>RGBAAt\<close> of \<open>image.RGBA\<close>: the stored pixel inside the rectangle, the zero
  colour outside. \<open>sprite_pixel\<close> reads one pixel of the sprite of a texture
  (\<open>None\<close> when building it panics).
\<close>

definition RGBAAt :: "image_RGBA \<Rightarrow> Point \<Rightarrow> color_RGBA" where
  "RGBAAt m p = (if \<not> Point_In p (Rect m) then transparent else Pix m p)"

definition sprite_pixel :: "Texture \<Rightarrow> Image option \<Rightarrow> Point \<Rightarrow> color_RGBA option" where
  "sprite_pixel texture img p = map_option (\<lambda>sprite. RGBAAt sprite p) (build_sprite texture img)"

section \<open>The operating system and the files\<close>

text \<open>
  What the program asks of the operating system and of the codecs is a parameter: how
  paths are joined (\<open>filepath.Join\<close>), which calls fail, and what image a sheet
  file decodes to. The answers do not change during a run.
\<close>

record OS =
  Join :: "string list \<Rightarrow> string"
  MkdirAll_fails :: "string \<Rightarrow> bool"
  Create_fails :: "string \<Rightarrow> bool"
  Write_fails :: "string \<Rightarrow> bool"
  Close_fails :: "string \<Rightarrow> bool"
  Open_fails :: "string \<Rightarrow> bool"
  Decode :: "string \<Rightarrow> Image option"

text \<open>
  The errors the program returns, one constructor per \<open>fmt.Errorf\<close> of the source
  (the two "failed to create output directory" sites share \<open>ErrMkdirAll\<close>), each with
  the path it was about.
\<close>

datatype error =
    ErrMkdirAll string
  | ErrCreate string
  | ErrEncode string
  | ErrClose string
  | ErrOpenSheet string
  | ErrDecode string

text \<open>
  An output file is freshly created and empty, partly written (an encoding that failed
  while writing), or a PNG of a sprite. The trace records which sheet files were opened
  and decoded and for which textures \<open>unpackTexture\<close> was entered; it is
  bookkeeping of the model, the program keeps no such list.
\<close>

datatype file_content = Created | Partial | PNG image_RGBA

datatype event = EvOpen string | EvDecode string | EvUnpack string

record world =
  files :: "string \<rightharpoonup> file_content"
  dirs :: "string set"
  trace :: "event list"

definition os_MkdirAll :: "OS \<Rightarrow> string \<Rightarrow> world \<Rightarrow> world option" where
  "os_MkdirAll os path w =
     (if MkdirAll_fails os path then None else Some (w\<lparr>dirs := insert path (dirs w)\<rparr>))"

definition os_Create :: "OS \<Rightarrow> string \<Rightarrow> world \<Rightarrow> world option" where
  "os_Create os path w =
     (if Create_fails os path then None else Some (w\<lparr>files := (files w)(path \<mapsto> Created)\<rparr>))"

text \<open>
  \<open>png.Encoder.Encode\<close> refuses an image whose width or height is not positive or is
  \<open>2^32\<close> or more before it writes anything; otherwise it writes the image, and fails
  when the writer does.
\<close>

definition png_Encode :: "OS \<Rightarrow> string \<Rightarrow> image_RGBA \<Rightarrow> world \<Rightarrow> bool \<times> world" where
  "png_Encode os path m w =
     (let mw = Rectangle_Dx (Rect m); mh = Rectangle_Dy (Rect m) in
      if mw \<le> 0 \<or> mh \<le> 0 \<or> mw \<ge> 2 ^ 32 \<or> mh \<ge> 2 ^ 32 then (False, w)
      else if Write_fails os path then (False, w\<lparr>files := (files w)(path \<mapsto> Partial)\<rparr>)
      else (True, w\<lparr>files := (files w)(path \<mapsto> PNG m)\<rparr>))"

text \<open>\<open>strings.Split(s, "/")\<close>: the pieces between the separators, empty ones included.\<close>

fun strings_Split :: "string \<Rightarrow> string list" where
  "strings_Split [] = [[]]"
| "strings_Split (c # cs) =
     (if c = CHR ''/'' then [] # strings_Split cs
      else (case strings_Split cs of
              [] \<Rightarrow> [[c]]
            | piece # pieces \<Rightarrow> (c # piece) # pieces))"

section \<open>unpackTexture\<close>

text \<open>
  A call either panics (the process dies) or returns an error or nil, leaving the files
  as it made them.
\<close>

datatype exec = Panic | Return "error option" world

definition unpackTexture :: "OS \<Rightarrow> Unpacker \<Rightarrow> Texture \<Rightarrow> Image option \<Rightarrow> world \<Rightarrow> exec" where
  "unpackTexture os unpacker texture img w0 =
     (let w = w0\<lparr>trace := trace w0 @ [EvUnpack (FileName texture)]\<rparr> in
      case build_sprite texture img of
        None \<Rightarrow> Panic
      | Some sprite \<Rightarrow>
          (let outputPath = Join os [OutputDir unpacker, FileName texture @ ''.png''];
               subDir = Join os [OutputDir unpacker, Join os (strings_Split (FileName texture))]
           in case (if CHR ''/'' \<in> set (FileName texture) then os_MkdirAll os subDir w
                    else Some w) of
                None \<Rightarrow> Return (Some (ErrMkdirAll subDir)) w
              | Some w1 \<Rightarrow>
                  (case os_Create os outputPath w1 of
                     None \<Rightarrow> Return (Some (ErrCreate outputPath)) w1
                   | Some w2 \<Rightarrow>
                       (case png_Encode os outputPath sprite w2 of
                          (False, w3) \<Rightarrow> Return (Some (ErrEncode outputPath)) w3
                        | (True, w3) \<Rightarrow>
                            if Close_fails os outputPath
                            then Return (Some (ErrClose outputPath)) w3
                            else Return None w3))))"

text \<open>What a call returned: \<open>None\<close> when it panicked.\<close>

definition returned :: "exec \<Rightarrow> error option option" where
  "returned e = (case e of Panic \<Rightarrow> None | Return r w \<Rightarrow> Some r)"

section \<open>unpackSheet\<close>

text \<open>
  \<open>unpackSheet\<close> opens and decodes the sheet, starts \<open>Workers\<close> worker goroutines
  and one goroutine that feeds the textures, in order, into the unbuffered channel
  \<open>jobs\<close>, waits for the workers, and returns the first non-nil value of \<open>results\<close>.

  A worker is idle (waiting on \<open>jobs\<close>), busy with the texture it received, or has
  left its loop: after an error (\<open>results <- err; return\<close>) or because \<open>jobs\<close> was
  closed. \<open>pending\<close> lists the textures the feeding goroutine has not handed over yet;
  it closes \<open>jobs\<close> once the list is empty. \<open>results\<close> has room for one value per
  texture, so sending to it never blocks; the list is the channel's content in sending
  order. The progress bars are left out.
\<close>

datatype worker = Idle | Busy Texture | Exited

record pool =
  pending :: "Texture list"
  workers :: "worker list"
  results :: "error option list"

text \<open>
  The goroutines run concurrently. A run is a sequence of actions, each naming the worker
  that moves: worker \<open>i\<close> receives the next texture (\<open>Take i\<close>), finishes its call of
  \<open>unpackTexture\<close> and sends the result (\<open>Finish i\<close>), or sees \<open>jobs\<close> closed and
  leaves (\<open>Quit i\<close>). A call of \<open>unpackTexture\<close> is taken as one step: the calls of
  different workers touch different paths when the textures' names differ. An action
  that cannot happen in a state is \<open>Blocked\<close>; a panic kills the process (\<open>Dies\<close>).
\<close>

datatype pool_action = Take nat | Finish nat | Quit nat

datatype 's step = Blocked | Dies | Steps 's

definition pool_step ::
  "OS \<Rightarrow> Unpacker \<Rightarrow> Image \<Rightarrow> pool_action \<Rightarrow> pool \<Rightarrow> world \<Rightarrow> (pool \<times> world) step" where
  "pool_step os unpacker img a p w =
     (case a of
        Take i \<Rightarrow>
          (if i < length (workers p) \<and> workers p ! i = Idle
           then (case pending p of
                   [] \<Rightarrow> Blocked
                 | tex # rest \<Rightarrow>
                     Steps (p\<lparr>pending := rest, workers := (workers p)[i := Busy tex]\<rparr>, w))
           else Blocked)
      | Finish i \<Rightarrow>
          (if i < length (workers p)
           then (case workers p ! i of
                   Busy tex \<Rightarrow>
                     (case unpackTexture os unpacker tex (Some img) w of
                        Panic \<Rightarrow> Dies
                      | Return (Some err) w' \<Rightarrow>
                          Steps (p\<lparr>workers := (workers p)[i := Exited],
                                   results := results p @ [Some err]\<rparr>, w')
                      | Return None w' \<Rightarrow>
                          Steps (p\<lparr>workers := (workers p)[i := Idle],
                                   results := results p @ [None]\<rparr>, w'))
                 | Idle \<Rightarrow> Blocked
                 | Exited \<Rightarrow> Blocked)
           else Blocked)
      | Quit i \<Rightarrow>
          (if i < length (workers p) \<and> workers p ! i = Idle \<and> pending p = []
           then Steps (p\<lparr>workers := (workers p)[i := Exited]\<rparr>, w)
           else Blocked))"

text \<open>\<open>for range unpacker.Workers\<close> starts no worker when the count is zero or negative.\<close>

definition new_pool :: "Unpacker \<Rightarrow> Sheet \<Rightarrow> pool" where
  "new_pool unpacker sheet =
     \<lparr>pending = Textures sheet, workers = replicate (nat (Workers unpacker)) Idle, results = []\<rparr>"

text \<open>The closing loop over \<open>results\<close>: the first value that is not nil, or nil.\<close>

fun first_error :: "error option list \<Rightarrow> error option" where
  "first_error [] = None"
| "first_error (r # rs) = (case r of Some err \<Rightarrow> Some err | None \<Rightarrow> first_error rs)"

text \<open>
  One call of \<open>unpackSheet\<close>: not started; running its pool on the decoded image;
  returned; or dead with the process. \<open>Start\<close> is the opening and decoding (an error
  returns at once), \<open>Work\<close> a step of the pool, \<open>Wait\<close> the return once
  \<open>wg.Wait()\<close> lets go, which is when every worker has left its loop.
\<close>

datatype sheet_state = NotStarted | Running Image pool | Returned "error option" | Crashed

datatype sheet_action = Start | Work pool_action | Wait

definition unpackSheet_step ::
  "OS \<Rightarrow> Unpacker \<Rightarrow> Sheet \<Rightarrow> sheet_action \<Rightarrow> sheet_state \<times> world \<Rightarrow> (sheet_state \<times> world) option" where
  "unpackSheet_step os unpacker sheet a sw =
     (case sw of (s, w) \<Rightarrow>
       (case a of
          Start \<Rightarrow>
            (case s of
               NotStarted \<Rightarrow>
                 (let sheetPath = Join os [InputDir unpacker, Image sheet];
                      w1 = w\<lparr>trace := trace w @ [EvOpen sheetPath]\<rparr>
                  in if Open_fails os sheetPath
                     then Some (Returned (Some (ErrOpenSheet sheetPath)), w1)
                     else (let w2 = w1\<lparr>trace := trace w1 @ [EvDecode sheetPath]\<rparr>
                           in case Decode os sheetPath of
                                None \<Rightarrow> Some (Returned (Some (ErrDecode sheetPath)), w2)
                              | Some img \<Rightarrow> Some (Running img (new_pool unpacker sheet), w2)))
             | Running img p \<Rightarrow> None
             | Returned r \<Rightarrow> None
             | Crashed \<Rightarrow> None)
        | Work pa \<Rightarrow>
            (case s of
               Running img p \<Rightarrow>
                 (case pool_step os unpacker img pa p w of
                    Blocked \<Rightarrow> None
                  | Dies \<Rightarrow> Some (Crashed, w)
                  | Steps (p', w') \<Rightarrow> Some (Running img p', w'))
             | NotStarted \<Rightarrow> None
             | Returned r \<Rightarrow> None
             | Crashed \<Rightarrow> None)
        | Wait \<Rightarrow>
            (case s of
               Running img p \<Rightarrow>
                 (if list_all (\<lambda>x. x = Exited) (workers p)
                  then Some (Returned (first_error (results p)), w)
                  else None)
             | NotStarted \<Rightarrow> None
             | Returned r \<Rightarrow> None
             | Crashed \<Rightarrow> None)))"

text \<open>A run: the actions one after the other; \<open>None\<close> when one of them cannot happen.\<close>

fun run :: "('a \<Rightarrow> 's \<Rightarrow> 's option) \<Rightarrow> 'a list \<Rightarrow> 's \<Rightarrow> 's option" where
  "run stp [] s = Some s"
| "run stp (a # as) s = (case stp a s of None \<Rightarrow> None | Some s' \<Rightarrow> run stp as s')"

section \<open>unpack\<close>

text \<open>
  \<open>unpack\<close> creates the output directory (an error returns before any sheet is
  touched), starts one goroutine per sheet, and waits for all of them. Goroutine \<open>k\<close>
  runs \<open>unpackSheet\<close> on sheet \<open>k\<close> (\<open>InSheet k\<close>) and then, under the mutex, stores
  its error in \<open>firstErr\<close> if that is still nil, and is done (\<open>Done k\<close>).
  \<open>reports\<close> lists what the goroutines returned, in the order in which they
  finished (for the errors, the order in which they took the mutex); it is bookkeeping of
  the model. Once every goroutine is done, \<open>unpack\<close> returns \<open>firstErr\<close>. The
  printing and the progress bars are left out.
\<close>

record unpack_state =
  sheets :: "sheet_state list"
  reported :: "bool list"
  firstErr :: "error option"
  reports :: "error option list"

datatype unpack_action = InSheet nat sheet_action | Done nat

definition unpack_start :: "OS \<Rightarrow> Unpacker \<Rightarrow> world \<Rightarrow> error + (unpack_state \<times> world)" where
  "unpack_start os unpacker w =
     (case os_MkdirAll os (OutputDir unpacker) w of
        None \<Rightarrow> Inl (ErrMkdirAll (OutputDir unpacker))
      | Some w' \<Rightarrow>
          Inr (\<lparr>sheets = replicate (length (Sheets unpacker)) NotStarted,
                reported = replicate (length (Sheets unpacker)) False,
                firstErr = None, reports = []\<rparr>, w'))"

definition unpack_step ::
  "OS \<Rightarrow> Unpacker \<Rightarrow> unpack_action \<Rightarrow> unpack_state \<times> world \<Rightarrow> (unpack_state \<times> world) option" where
  "unpack_step os unpacker a sw =
     (case sw of (st, w) \<Rightarrow>
       if Crashed \<in> set (sheets st) then None
       else
        (case a of
           InSheet k sa \<Rightarrow>
             (if k < length (sheets st) \<and> k < length (Sheets unpacker)
              then (case unpackSheet_step os unpacker (Sheets unpacker ! k) sa (sheets st ! k, w) of
                      None \<Rightarrow> None
                    | Some (s', w') \<Rightarrow> Some (st\<lparr>sheets := (sheets st)[k := s']\<rparr>, w'))
              else None)
         | Done k \<Rightarrow>
             (if k < length (sheets st) \<and> k < length (reported st) \<and> \<not> reported st ! k
              then (case sheets st ! k of
                      Returned r \<Rightarrow>
                        Some (st\<lparr>reported := (reported st)[k := True],
                                 firstErr := (case r of
                                                None \<Rightarrow> firstErr st
                                              | Some err \<Rightarrow> (if firstErr st = None then Some err
                                                             else firstErr st)),
                                 reports := reports st @ [r]\<rparr>, w)
                    | NotStarted \<Rightarrow> None
                    | Running img p \<Rightarrow> None
                    | Crashed \<Rightarrow> None)
              else None)))"

text \<open>What \<open>unpack\<close> returns once \<open>wg.Wait()\<close> lets go; \<open>None\<close> while it waits.\<close>

definition unpack_result :: "unpack_state \<Rightarrow> error option option" where
  "unpack_result st = (if list_all (\<lambda>b. b) (reported st) then Some (firstErr st) else None)"

section \<open>Reading a run\<close>

text \<open>
  The path of a sheet's file, as \<open>unpackSheet\<close> computes it; the trace split into the
  openings and decodings of sheet files and the calls of \<open>unpackTexture\<close>; and what a
  run of \<open>unpackSheet\<close> leaves: the state, the trace, the content of a file.
\<close>

abbreviation sheet_path :: "OS \<Rightarrow> Unpacker \<Rightarrow> Sheet \<Rightarrow> string" where
  "sheet_path os unpacker sheet \<equiv> Join os [InputDir unpacker, Image sheet]"




definition state_after :: "(sheet_state \<times> world) option \<Rightarrow> sheet_state option" where
  "state_after x = map_option fst x"

definition file_after :: "(sheet_state \<times> world) option \<Rightarrow> string \<Rightarrow> file_content option" where
  "file_after x path = (case x of None \<Rightarrow> None | Some (s, w) \<Rightarrow> files w path)"

definition trace_after :: "(sheet_state \<times> world) option \<Rightarrow> event list" where
  "trace_after x = (case x of None \<Rightarrow> [] | Some (s, w) \<Rightarrow> trace w)"

definition unpack_result_after :: "(unpack_state \<times> world) option \<Rightarrow> error option option" where
  "unpack_result_after x = (case x of None \<Rightarrow> None | Some (st, w) \<Rightarrow> unpack_result st)"

definition unpack_file_after ::
  "(unpack_state \<times> world) option \<Rightarrow> string \<Rightarrow> file_content option" where
  "unpack_file_after x path = (case x of None \<Rightarrow> None | Some (st, w) \<Rightarrow> files w path)"

section \<open>Invariants of the runs\<close>


text \<open>
  What holds of every state that a run of \<open>unpack\<close> reaches: \<open>firstErr\<close> is the first
  error among the reports; a goroutine that is done has returned, and its result is among
  the reports; every report is the result of a goroutine that is done; and the file of
  every sheet that was started has been opened.
\<close>

definition unpack_inv :: "OS \<Rightarrow> Unpacker \<Rightarrow> unpack_state \<times> world \<Rightarrow> bool" where
  "unpack_inv os unpacker sw =
     (case sw of (st, w) \<Rightarrow>
        length (sheets st) = length (Sheets unpacker) \<and>
        length (reported st) = length (Sheets unpacker) \<and>
        firstErr st = first_error (reports st) \<and>
        (\<forall>k < length (Sheets unpacker).
           reported st ! k \<longrightarrow> (\<exists>r. sheets st ! k = Returned r \<and> r \<in> set (reports st))) \<and>
        (\<forall>r \<in> set (reports st).
           \<exists>k < length (Sheets unpacker). reported st ! k \<and> sheets st ! k = Returned r) \<and>
        (\<forall>k < length (Sheets unpacker).
           sheets st ! k \<noteq> NotStarted \<longrightarrow>
           EvOpen (sheet_path os unpacker (Sheets unpacker ! k)) \<in> set (trace w)))"

section \<open>The specification's notions\<close>

text \<open>
  The specification speaks of the raw crop of the region \<open>frame\<close> from the source
  image. \<open>spec_raw_crop src fr p\<close> is the crop's pixel at offset \<open>p\<close> from the crop's
  corner: the source's colour at the frame's corner plus \<open>p\<close>, where \<open>p\<close> lies within
  the frame's width and height and that point lies in the image; the crop has no pixel
  elsewhere.
\<close>

definition spec_raw_crop :: "Image \<Rightarrow> Frame \<Rightarrow> Point \<Rightarrow> color_RGBA option" where
  "spec_raw_crop src fr p =
     (if 0 \<le> Point.X p \<and> Point.X p < Frame.Width fr \<and>
         0 \<le> Point.Y p \<and> Point.Y p < Frame.Height fr \<and>
         Point_In (Pt (Frame.X fr + Point.X p) (Frame.Y fr + Point.Y p)) (Bounds src)
      then Some (At src (Pt (Frame.X fr + Point.X p) (Frame.Y fr + Point.Y p)))
      else None)"

text \<open>
  For a rotated texture the specification asks to swap the width and height of
  \<open>frame\<close> and to rotate the pixels by 90 degrees before placing them. The region on
  the sheet is then \<open>Height\<close> wide and \<open>Width\<close> high. The specification does not say
  which way the packer turned the sprite, so both readings are given: pixel \<open>p\<close> of the
  upright sprite, read from a region the packer turned clockwise, and from one it turned
  counter-clockwise.
\<close>

definition spec_unrotate_cw :: "Image \<Rightarrow> Frame \<Rightarrow> Point \<Rightarrow> color_RGBA option" where
  "spec_unrotate_cw src fr p =
     (if 0 \<le> Point.X p \<and> Point.X p < Frame.Width fr \<and>
         0 \<le> Point.Y p \<and> Point.Y p < Frame.Height fr
      then Some (At src (Pt (Frame.X fr + (Frame.Height fr - 1 - Point.Y p))
                            (Frame.Y fr + Point.X p)))
      else None)"

definition spec_unrotate_ccw :: "Image \<Rightarrow> Frame \<Rightarrow> Point \<Rightarrow> color_RGBA option" where
  "spec_unrotate_ccw src fr p =
     (if 0 \<le> Point.X p \<and> Point.X p < Frame.Width fr \<and>
         0 \<le> Point.Y p \<and> Point.Y p < Frame.Height fr
      then Some (At src (Pt (Frame.X fr + Point.Y p)
                            (Frame.Y fr + (Frame.Width fr - 1 - Point.X p))))
      else None)"

text \<open>
  The data model's condition on a frame: its extent fits within the bounds of the
  sheet's image.
\<close>

definition spec_frame_fits :: "Frame \<Rightarrow> Image \<Rightarrow> bool" where
  "spec_frame_fits fr src =
     (Point.X (MinP (Bounds src)) \<le> Frame.X fr \<and>
      Frame.X fr + Frame.Width fr \<le> Point.X (MaxP (Bounds src)) \<and>
      Point.Y (MinP (Bounds src)) \<le> Frame.Y fr \<and>
      Frame.Y fr + Frame.Height fr \<le> Point.Y (MaxP (Bounds src)))"

section \<open>Ranges\<close>

text \<open>
  Coordinates of magnitude below \<open>2^60\<close>: sums and differences of a few of them stay
  within 64 bits, so that no step of the copy wraps around.
\<close>

definition small :: "int \<Rightarrow> bool" where
  "small v = (- (2 ^ 60) \<le> v \<and> v < 2 ^ 60)"

definition small_rect :: "Rectangle \<Rightarrow> bool" where
  "small_rect r =
     (small (Point.X (MinP r)) \<and> small (Point.Y (MinP r)) \<and>
      small (Point.X (MaxP r)) \<and> small (Point.Y (MaxP r)))"

definition small_frame :: "Frame \<Rightarrow> bool" where
  "small_frame fr =
     (small (Frame.X fr) \<and> small (Frame.Y fr) \<and> small (Frame.Width fr) \<and> small (Frame.Height fr))"

definition small_size :: "Size \<Rightarrow> bool" where
  "small_size sz = (small (Size.Width sz) \<and> small (Size.Height sz))"

text \<open>
  The sizes for which \<open>image.NewRGBA\<close> builds the canvas instead of panicking:
  neither side negative, and the length of the buffer, four bytes per pixel, within the
  range of \<open>int\<close> (see \<open>mul3NonNeg\<close>).
\<close>

definition canvas_fits :: "Size \<Rightarrow> bool" where
  "canvas_fits sz =
     (0 \<le> Size.Width sz \<and> Size.Width sz < 2 ^ 62 \<and>
      0 \<le> Size.Height sz \<and> Size.Height sz < 2 ^ 63 \<and>
      4 * Size.Width sz * Size.Height sz < 2 ^ 63)"

section \<open>Example inputs\<close>

text \<open>
  A sheet of two by two pixels: red and blue in the top row, green and white below.
\<close>

definition red :: color_RGBA where "red = Color 255 0 0 255"
definition blue :: color_RGBA where "blue = Color 0 0 255 255"
definition green :: color_RGBA where "green = Color 0 255 0 255"
definition white :: color_RGBA where "white = Color 255 255 255 255"

definition sheet_image :: Image where
  "sheet_image =
     \<lparr>Bounds = \<lparr>MinP = Pt 0 0, MaxP = Pt 2 2\<rparr>,
      At = (\<lambda>p. if p = Pt 0 0 then red else if p = Pt 1 0 then blue
                else if p = Pt 0 1 then green else if p = Pt 1 1 then white
                else transparent)\<rparr>"

definition mk_frame :: "int \<Rightarrow> int \<Rightarrow> int \<Rightarrow> int \<Rightarrow> Frame" where
  "mk_frame x y w h = \<lparr>Frame.Width = w, Frame.Height = h, Frame.X = x, Frame.Y = y\<rparr>"

definition mk_size :: "int \<Rightarrow> int \<Rightarrow> Size" where
  "mk_size w h = \<lparr>Size.Width = w, Size.Height = h\<rparr>"

text \<open>The top row of the sheet as a sprite of two by one pixels, nothing trimmed.\<close>

definition tex_row :: Texture where
  "tex_row = \<lparr>FileName = ''row'', Frame = mk_frame 0 0 2 1, Rotated = False,
              SourceSize = mk_size 2 1, SpriteSourceSize = mk_frame 0 0 2 1, Trimmed = False\<rparr>"

text \<open>
  The same canvas, not marked as trimmed, but with the packed pixel placed at offset
  \<open>(1, 0)\<close>.
\<close>

definition tex_offset :: Texture where
  "tex_offset = \<lparr>FileName = ''offset'', Frame = mk_frame 0 0 2 1, Rotated = False,
                 SourceSize = mk_size 2 1, SpriteSourceSize = mk_frame 1 0 1 1, Trimmed = False\<rparr>"

text \<open>
  A trimmed sprite of two by two pixels whose only packed pixel, the white one of the
  sheet, belongs at \<open>(1, 0)\<close>.
\<close>

definition tex_trimmed :: Texture where
  "tex_trimmed = \<lparr>FileName = ''trimmed'', Frame = mk_frame 1 1 1 1, Rotated = False,
                  SourceSize = mk_size 2 2, SpriteSourceSize = mk_frame 1 0 1 1, Trimmed = True\<rparr>"

text \<open>
  A trimmed sprite of two by one pixels whose \<open>SpriteSourceSize\<close> is the whole canvas
  while its \<open>Frame\<close> is the single red pixel of the sheet: the frame is narrower than
  the region the pixels are placed in, and lies inside the sheet.
\<close>

definition tex_bleed :: Texture where
  "tex_bleed = \<lparr>FileName = ''bleed'', Frame = mk_frame 0 0 1 1, Rotated = False,
                SourceSize = mk_size 2 1, SpriteSourceSize = mk_frame 0 0 2 1, Trimmed = True\<rparr>"

text \<open>
  A rotated texture: a sprite of two by one pixels, packed into the region of one by two
  pixels at the sheet's left edge (red above green).
\<close>

definition tex_rotated :: Texture where
  "tex_rotated = \<lparr>FileName = ''rotated'', Frame = mk_frame 0 0 2 1, Rotated = True,
                  SourceSize = mk_size 2 1, SpriteSourceSize = mk_frame 0 0 2 1, Trimmed = False\<rparr>"

text \<open>A texture whose frame lies far outside the sheet.\<close>

definition tex_outside :: Texture where
  "tex_outside = \<lparr>FileName = ''outside'', Frame = mk_frame 100 100 1 1, Rotated = False,
                  SourceSize = mk_size 1 1, SpriteSourceSize = mk_frame 0 0 1 1, Trimmed = False\<rparr>"

text \<open>
  A texture with an empty canvas, which the PNG encoder refuses, and a sound one after
  it in the same sheet.
\<close>

definition tex_bad :: Texture where
  "tex_bad = \<lparr>FileName = ''bad'', Frame = mk_frame 0 0 0 0, Rotated = False,
              SourceSize = mk_size 0 0, SpriteSourceSize = mk_frame 0 0 0 0, Trimmed = False\<rparr>"

definition tex_good :: Texture where
  "tex_good = \<lparr>FileName = ''good'', Frame = mk_frame 0 0 1 1, Rotated = False,
               SourceSize = mk_size 1 1, SpriteSourceSize = mk_frame 0 0 1 1, Trimmed = False\<rparr>"

text \<open>
  An operating system on which no output fails, paths are joined with a slash, and the
  only sheet file is \<open>in/sheet.png\<close>, which decodes to the sheet above.
\<close>

fun slash_join :: "string list \<Rightarrow> string" where
  "slash_join [] = []"
| "slash_join [x] = x"
| "slash_join (x # y # ys) = x @ ''/'' @ slash_join (y # ys)"

definition plain_os :: OS where
  "plain_os =
     \<lparr>Join = slash_join, MkdirAll_fails = (\<lambda>p. False), Create_fails = (\<lambda>p. False),
      Write_fails = (\<lambda>p. False), Close_fails = (\<lambda>p. False),
      Open_fails = (\<lambda>p. p \<noteq> ''in/sheet.png''),
      Decode = (\<lambda>p. if p = ''in/sheet.png'' then Some sheet_image else None)\<rparr>"

definition empty_world :: world where
  "empty_world = \<lparr>files = Map.empty, dirs = {}, trace = []\<rparr>"

definition sheet_of :: "string \<Rightarrow> Texture list \<Rightarrow> Sheet" where
  "sheet_of name texs =
     \<lparr>Format = ''RGBA8888'', Textures = texs, Image = name, Size = mk_size 2 2\<rparr>"

definition unpacker_of :: "Sheet list \<Rightarrow> int \<Rightarrow> Unpacker" where
  "unpacker_of shs n =
     \<lparr>Meta = Map.empty, Sheets = shs, PackName = ''in'', InputDir = ''in'',
      OutputDir = ''out'', Workers = n\<rparr>"

text \<open>
  An operating system like the one above on which no directory can be created.
\<close>

definition readonly_os :: OS where
  "readonly_os = plain_os\<lparr>MkdirAll_fails := (\<lambda>p. True)\<rparr>"

text \<open>
  Sheets over the file \<open>in/sheet.png\<close>: one with the texture the encoder refuses
  followed by a sound one, one with the sound texture alone; and a sheet whose file does
  not exist.
\<close>

definition two_textures :: Sheet where
  "two_textures = sheet_of ''sheet.png'' [tex_bad, tex_good]"

definition one_texture :: Sheet where
  "one_texture = sheet_of ''sheet.png'' [tex_good]"

definition missing_sheet :: Sheet where
  "missing_sheet = sheet_of ''missing.png'' [tex_row]"

definition two_sheets :: Unpacker where
  "two_sheets = unpacker_of [missing_sheet, one_texture] 1"

text \<open>The sprite of \<open>tex_good\<close>: the sheet's top left pixel.\<close>

definition good_sprite :: image_RGBA where
  "good_sprite = draw_Draw \<lparr>Pix = (\<lambda>p. transparent), Rect = Size_Rect (mk_size 1 1)\<rparr>
                   (Frame_Rect (mk_frame 0 0 1 1)) sheet_image (Pt 0 0)"

text \<open>
  The states that \<open>unpackSheet\<close> can reach on \<open>two_textures\<close> with a single worker:
  the worker is idle with both textures pending, busy with the first, or gone after the
  first has failed; the second texture stays pending throughout.
\<close>

definition single_inv :: "sheet_state \<times> world \<Rightarrow> bool" where
  "single_inv sw =
     (case sw of (s, w) \<Rightarrow>
        EvUnpack ''good'' \<notin> set (trace w) \<and> files w ''out/good.png'' = None \<and>
        (case s of
           NotStarted \<Rightarrow> True
         | Running img p \<Rightarrow>
             img = sheet_image \<and>
             ((pending p = [tex_bad, tex_good] \<and> workers p = [Idle] \<and> results p = []) \<or>
              (pending p = [tex_good] \<and> workers p = [Busy tex_bad] \<and> results p = []) \<or>
              (pending p = [tex_good] \<and> workers p = [Exited] \<and>
               results p = [Some (ErrEncode ''out/bad.png'')]))
         | Returned r \<Rightarrow> r = Some (ErrEncode ''out/bad.png'')
         | Crashed \<Rightarrow> False))"

section \<open>Lemmas on the image library\<close>

lemma i64_id: "- (2 ^ 63) \<le> v \<Longrightarrow> v < 2 ^ 63 \<Longrightarrow> i64 v = v"
  by (simp add: i64_def)

lemma Pt_sel [simp]: "Point.X (Pt x y) = x" "Point.Y (Pt x y) = y"
  by (simp_all add: Pt_def)

lemma Pt_eq [simp]: "(Pt x y = Pt x' y') = (x = x' \<and> y = y')"
  by (simp add: Pt_def)

lemma mul3NonNeg_ok:
  "0 \<le> mul3NonNeg 4 w h \<longleftrightarrow> 0 \<le> w \<and> 0 \<le> h \<and> w < 2 ^ 62 \<and> 4 * w * h < 2 ^ 63"
  by (auto simp: mul3NonNeg_def not_le)

lemma Size_Rect_sel [simp]:
  "MinP (Size_Rect sz) = Pt 0 0" "MaxP (Size_Rect sz) = Pt (Size.Width sz) (Size.Height sz)"
  by (simp_all add: Size_Rect_def Size_Min_def Size_Max_def)

lemma NewRGBA_Size:
  assumes "canvas_fits sz"
  shows "NewRGBA (Size_Rect sz) = Some \<lparr>Pix = (\<lambda>p. transparent), Rect = Size_Rect sz\<rparr>"
proof -
  have "i64 (Size.Width sz) = Size.Width sz" "i64 (Size.Height sz) = Size.Height sz"
    using assms by (simp_all add: canvas_fits_def i64_id)
  moreover have "0 \<le> mul3NonNeg 4 (Size.Width sz) (Size.Height sz)"
    using assms by (simp add: mul3NonNeg_ok canvas_fits_def)
  ultimately show ?thesis
    by (simp add: NewRGBA_def Rectangle_Dx_def Rectangle_Dy_def)
qed

text \<open>
  For a size whose sides are 64-bit values, \<open>canvas_fits\<close> is exactly the condition
  under which \<open>image.NewRGBA\<close> does not panic.
\<close>

lemma NewRGBA_panics_iff:
  assumes "- (2 ^ 63) \<le> Size.Width sz" "Size.Width sz < 2 ^ 63"
    and "- (2 ^ 63) \<le> Size.Height sz" "Size.Height sz < 2 ^ 63"
  shows "NewRGBA (Size_Rect sz) = None \<longleftrightarrow> \<not> canvas_fits sz"
proof -
  have "i64 (Size.Width sz) = Size.Width sz" "i64 (Size.Height sz) = Size.Height sz"
    using assms by (simp_all add: i64_id)
  then have "NewRGBA (Size_Rect sz) = None \<longleftrightarrow>
             \<not> 0 \<le> mul3NonNeg 4 (Size.Width sz) (Size.Height sz)"
    by (simp add: NewRGBA_def Rectangle_Dx_def Rectangle_Dy_def not_le)
  then show ?thesis using assms by (auto simp: mul3NonNeg_ok canvas_fits_def)
qed

lemma Size_Rect_D:
  assumes "canvas_fits sz"
  shows "Rectangle_Dx (Size_Rect sz) = Size.Width sz" "Rectangle_Dy (Size_Rect sz) = Size.Height sz"
  using assms by (simp_all add: canvas_fits_def i64_id Rectangle_Dx_def Rectangle_Dy_def)

lemma Rect_draw_Draw [simp]: "Rect (draw_Draw dst r src sp) = Rect dst"
  by (simp add: draw_Draw_def split: prod.splits)

lemma In_Intersect_iff:
  "Point_In p (Rectangle_Intersect r s) \<longleftrightarrow> Point_In p r \<and> Point_In p s"
  by (auto simp: Rectangle_Intersect_def Point_In_def Let_def ZR_def Rectangle_Empty_def split: if_splits)

lemma Intersect_Min:
  assumes "Point_In p r" "Point_In p s"
  shows "MinP (Rectangle_Intersect r s) =
         Pt (max (Point.X (MinP r)) (Point.X (MinP s))) (max (Point.Y (MinP r)) (Point.Y (MinP s)))"
  using assms
  by (auto simp: Rectangle_Intersect_def Point_In_def Let_def Rectangle_Empty_def max_def)

lemma In_not_Empty: "Point_In p r \<Longrightarrow> \<not> Rectangle_Empty r"
  by (auto simp: Point_In_def Rectangle_Empty_def)

lemma draw_Draw_outside:
  "\<not> Point_In p r \<Longrightarrow> Pix (draw_Draw dst r src sp) p = Pix dst p"
  by (auto simp: draw_Draw_def clip_def Let_def In_Intersect_iff split: prod.splits if_splits)

lemma draw_Draw_inside:
  assumes pr: "Point_In p r" and pd: "Point_In p (Rect dst)"
    and r0: "MinP r = Pt x0 y0"
    and q: "Point_In (Pt (u + (Point.X p - x0)) (v + (Point.Y p - y0))) (Bounds src)"
    and sm: "small x0" "small y0" "small u" "small v" "small_rect (Rect dst)" "small_rect (Bounds src)"
  shows "Pix (draw_Draw dst r src (Pt u v)) p = At src (Pt (u + (Point.X p - x0)) (v + (Point.Y p - y0)))"
proof -
  let ?B = "Bounds src"
  let ?s = "Rectangle_Add ?B (Point_Sub (Pt x0 y0) (Pt u v))"
  let ?r1 = "Rectangle_Intersect r (Rect dst)"
  let ?r2 = "Rectangle_Intersect ?r1 ?s"
  have sp: "small (Point.X p)" "small (Point.Y p)"
    using pr pd sm r0 by (auto simp: Point_In_def small_rect_def small_def)
  have sub: "Point_Sub (Pt x0 y0) (Pt u v) = Pt (x0 - u) (y0 - v)"
    using sm by (simp add: Point_Sub_def small_def i64_id)
  have s: "MinP ?s = Pt (Point.X (MinP ?B) + (x0 - u)) (Point.Y (MinP ?B) + (y0 - v))"
          "MaxP ?s = Pt (Point.X (MaxP ?B) + (x0 - u)) (Point.Y (MaxP ?B) + (y0 - v))"
    using sm by (simp_all add: sub Rectangle_Add_def Point_Add_def small_rect_def small_def i64_id)
  have ps: "Point_In p ?s"
    using q by (simp add: Point_In_def s)
  have p1: "Point_In p ?r1" using pr pd by (simp add: In_Intersect_iff)
  have p2: "Point_In p ?r2" using p1 ps by (simp add: In_Intersect_iff)
  have ne: "\<not> Rectangle_Empty ?r2" using p2 by (rule In_not_Empty)
  obtain mx my where m: "MinP ?r2 = Pt mx my" by (cases "MinP ?r2") (simp add: Pt_def)
  have mb: "x0 \<le> mx" "mx \<le> Point.X p" "y0 \<le> my" "my \<le> Point.Y p"
    using p2 m Intersect_Min [OF p1 ps] Intersect_Min [OF pr pd] r0
    by (auto simp: Point_In_def)
  have d: "i64 (mx - x0) = mx - x0" "i64 (my - y0) = my - y0"
    using mb sp sm by (auto simp: small_def intro!: i64_id)
  have e: "i64 (u + (mx - x0)) = u + (mx - x0)" "i64 (v + (my - y0)) = v + (my - y0)"
    using mb sp sm by (auto simp: small_def intro!: i64_id)
  have sq: "small (u + (Point.X p - x0))" "small (v + (Point.Y p - y0))"
    using q sm by (auto simp: Point_In_def small_rect_def small_def)
  have f: "i64 (u + (Point.X p - x0)) = u + (Point.X p - x0)"
          "i64 (v + (Point.Y p - y0)) = v + (Point.Y p - y0)"
    using sq by (auto simp: small_def intro!: i64_id)
  have cl: "clip (Rect dst) r ?B (Pt u v) = (?r2, Pt (u + (mx - x0)) (v + (my - y0)))"
    by (simp add: clip_def Let_def m r0 d e)
  have g: "u + (mx - x0) + (Point.X p - mx) = u + (Point.X p - x0)"
          "v + (my - y0) + (Point.Y p - my) = v + (Point.Y p - y0)" by simp_all
  show ?thesis
    using ne p2 by (simp add: draw_Draw_def cl m g f)
qed

section \<open>Lemmas on the sprite\<close>

lemma build_sprite_Some:
  assumes "canvas_fits (SourceSize texture)"
  shows "build_sprite texture (Some src) =
    Some (draw_Draw \<lparr>Pix = (\<lambda>p. transparent), Rect = Size_Rect (SourceSize texture)\<rparr>
            (Frame_Rect (SpriteSourceSize texture)) src (Frame_Min (Frame texture)))"
  using NewRGBA_Size [OF assms] by (simp add: build_sprite_def Frame_Rect_def)

lemma build_sprite_nil: "build_sprite texture None = None"
  by (simp add: build_sprite_def split: option.splits)

lemma sprite_outside:
  assumes "canvas_fits (SourceSize texture)"
    and "build_sprite texture (Some src) = Some sprite"
    and "\<not> Point_In p (Frame_Rect (SpriteSourceSize texture))"
  shows "Pix sprite p = transparent"
  using assms(2,3) unfolding build_sprite_Some [OF assms(1)]
  by (auto simp: draw_Draw_outside)

lemma sprite_inside:
  assumes cf: "canvas_fits (SourceSize texture)" and ss: "small_size (SourceSize texture)"
    and b: "build_sprite texture (Some src) = Some sprite"
    and sf: "small_frame (SpriteSourceSize texture)"
    and sx: "small (Frame.X (Frame texture))" "small (Frame.Y (Frame texture))"
    and sb: "small_rect (Bounds src)"
    and pr: "Point_In p (Frame_Rect (SpriteSourceSize texture))"
    and pc: "Point_In p (Size_Rect (SourceSize texture))"
    and q: "Point_In (Pt (Frame.X (Frame texture) + (Point.X p - Frame.X (SpriteSourceSize texture)))
                        (Frame.Y (Frame texture) + (Point.Y p - Frame.Y (SpriteSourceSize texture))))
              (Bounds src)"
  shows "Pix sprite p =
     At src (Pt (Frame.X (Frame texture) + (Point.X p - Frame.X (SpriteSourceSize texture)))
                (Frame.Y (Frame texture) + (Point.Y p - Frame.Y (SpriteSourceSize texture))))"
proof -
  let ?c = "\<lparr>Pix = (\<lambda>p. transparent), Rect = Size_Rect (SourceSize texture)\<rparr>"
  have s: "sprite = draw_Draw ?c (Frame_Rect (SpriteSourceSize texture)) src
             (Pt (Frame.X (Frame texture)) (Frame.Y (Frame texture)))"
    using b unfolding build_sprite_Some [OF cf] by (simp add: Frame_Min_def)
  have r0: "MinP (Frame_Rect (SpriteSourceSize texture)) =
      Pt (Frame.X (SpriteSourceSize texture)) (Frame.Y (SpriteSourceSize texture))"
    by (simp add: Frame_Rect_def Frame_Min_def)
  have sd: "small_rect (Rect ?c)"
    using cf ss by (simp add: small_rect_def small_size_def small_def)
  show ?thesis
    unfolding s
    using sf sx sb sd pr pc q
    by (intro draw_Draw_inside [OF _ _ r0]) (simp_all add: small_frame_def)
qed

lemma Frame_Rect_small:
  assumes "small_frame fr"
  shows "Frame_Rect fr = \<lparr>MinP = Pt (Frame.X fr) (Frame.Y fr),
                           MaxP = Pt (Frame.X fr + Frame.Width fr) (Frame.Y fr + Frame.Height fr)\<rparr>"
  using assms
  by (simp add: Frame_Rect_def Frame_Min_def Frame_Max_def small_frame_def small_def i64_id)

lemma sprite_pixel_eq:
  "build_sprite texture img = Some sprite \<Longrightarrow> Point_In p (Rect sprite) \<Longrightarrow>
   sprite_pixel texture img p = Some (Pix sprite p)"
  by (simp add: sprite_pixel_def RGBAAt_def)

lemma crop_defined:
  assumes "spec_frame_fits fr src" "0 \<le> i" "i < Frame.Width fr" "0 \<le> j" "j < Frame.Height fr"
  shows "spec_raw_crop src fr (Pt i j) = Some (At src (Pt (Frame.X fr + i) (Frame.Y fr + j)))"
  using assms by (simp add: spec_raw_crop_def spec_frame_fits_def Point_In_def)

section \<open>Evaluating the examples\<close>

lemma example_colours [simp]:
  "red \<noteq> transparent" "blue \<noteq> green" "blue \<noteq> red" "white \<noteq> transparent"
  by (simp_all add: red_def blue_def green_def white_def transparent_def)

lemma i64_num [simp]: "i64 0 = 0" "i64 1 = 1" "i64 2 = 2" "i64 100 = 100" "i64 (- 100) = - 100" "i64 101 = 101"
  "i64 (- 1) = - 1" "i64 3 = 3" "i64 (-99) = -99" "i64 (-98) = -98"
  by (simp_all add: i64_def)

lemmas example_defs =
  tex_row_def tex_offset_def tex_trimmed_def tex_bleed_def tex_rotated_def tex_outside_def
  tex_bad_def tex_good_def sheet_image_def mk_frame_def mk_size_def

lemmas sprite_defs =
  sprite_pixel_def build_sprite_def NewRGBA_def mul3NonNeg_def Rectangle_Dx_def Rectangle_Dy_def
  Size_Rect_def Size_Min_def Size_Max_def Frame_Rect_def Frame_Min_def Frame_Max_def
  draw_Draw_def clip_def Rectangle_Intersect_def Rectangle_Empty_def Rectangle_Add_def
  Point_Add_def Point_Sub_def Point_In_def RGBAAt_def ZR_def Let_def

section \<open>The sprite of a texture: size, flags, pixels\<close>



text \<open>
  Claim C10. The \<open>Trimmed\<close> flag has no influence: two textures that differ in it only
  give the same sprite and the same run of \<open>unpackTexture\<close>, files included.
\<close>

theorem trimmed_flag_not_read:
  "build_sprite (texture\<lparr>Trimmed := b\<rparr>) img = build_sprite texture img \<and>
   unpackTexture os unpacker (texture\<lparr>Trimmed := b\<rparr>) img w = unpackTexture os unpacker texture img w"
  by (simp add: build_sprite_def unpackTexture_def Let_def cong: option.case_cong)

theorem trimmed_flag_not_read_witness:
  "build_sprite (tex_trimmed\<lparr>Trimmed := False\<rparr>) (Some sheet_image) =
     build_sprite tex_trimmed (Some sheet_image) \<and>
   unpackTexture plain_os (unpacker_of [] 1) (tex_trimmed\<lparr>Trimmed := False\<rparr>) (Some sheet_image) empty_world =
     unpackTexture plain_os (unpacker_of [] 1) tex_trimmed (Some sheet_image) empty_world"
  by (rule trimmed_flag_not_read)

text \<open>
  Claim C3 asks that the copy of a rotated texture swap the width and height of
  \<open>Frame\<close> and turn the pixels by 90 degrees. The program does neither: for
  \<open>tex_rotated\<close> the pixel at \<open>(1, 0)\<close> is the sheet's pixel to the right of the
  frame's corner (blue), which is what neither direction of rotation puts there (green
  for one, red for the other).
\<close>

theorem rotated_counterexample:
  "Rotated tex_rotated \<and>
   Point_In (Pt 1 0) (Size_Rect (SourceSize tex_rotated)) \<and>
   sprite_pixel tex_rotated (Some sheet_image) (Pt 1 0) = Some blue \<and>
   spec_unrotate_cw sheet_image (Frame tex_rotated) (Pt 1 0) = Some green \<and>
   spec_unrotate_ccw sheet_image (Frame tex_rotated) (Pt 1 0) = Some red \<and>
   blue \<noteq> green \<and> blue \<noteq> red"
  by (simp add: example_defs sprite_defs spec_unrotate_cw_def spec_unrotate_ccw_def)

text \<open>
  Claim C3, amended. The \<open>Rotated\<close> flag is not read: a rotated texture is extracted
  exactly as the same texture with the flag cleared, by the plain copy, with the width
  and height of \<open>Frame\<close> not swapped and the pixels not turned.
\<close>

theorem rotated_flag_not_read:
  "build_sprite (texture\<lparr>Rotated := b\<rparr>) img = build_sprite texture img \<and>
   unpackTexture os unpacker (texture\<lparr>Rotated := b\<rparr>) img w = unpackTexture os unpacker texture img w"
  by (simp add: build_sprite_def unpackTexture_def Let_def cong: option.case_cong)

theorem rotated_flag_not_read_witness:
  "build_sprite (tex_rotated\<lparr>Rotated := False\<rparr>) (Some sheet_image) =
     build_sprite tex_rotated (Some sheet_image) \<and>
   unpackTexture plain_os (unpacker_of [] 1) (tex_rotated\<lparr>Rotated := False\<rparr>) (Some sheet_image) empty_world =
     unpackTexture plain_os (unpacker_of [] 1) tex_rotated (Some sheet_image) empty_world"
  by (rule rotated_flag_not_read)

text \<open>
  Claim C2 says that, for a texture with \<open>Trimmed\<close> set, every pixel of the sprite
  inside the rectangle \<open>SpriteSourceSize\<close> equals the corresponding pixel of the raw
  crop of \<open>Frame\<close>. The copy is as wide and high as \<open>SpriteSourceSize\<close> and takes
  from \<open>Frame\<close> its corner only: for \<open>tex_bleed\<close>, whose frame is one pixel wide and
  lies inside the sheet, the sprite's pixel at \<open>(1, 0)\<close> lies inside
  \<open>SpriteSourceSize\<close> and is the sheet's blue pixel to the right of the frame, where the
  crop of the frame has no pixel at all.
\<close>

theorem trimmed_bleed_counterexample:
  "Trimmed tex_bleed \<and>
   canvas_fits (SourceSize tex_bleed) \<and>
   spec_frame_fits (Frame tex_bleed) sheet_image \<and>
   Point_In (Pt 1 0) (Size_Rect (SourceSize tex_bleed)) \<and>
   Point_In (Pt 1 0) (Frame_Rect (SpriteSourceSize tex_bleed)) \<and>
   spec_raw_crop sheet_image (Frame tex_bleed) (Pt 1 0) = None \<and>
   sprite_pixel tex_bleed (Some sheet_image) (Pt 1 0) = Some blue \<and>
   At sheet_image (Pt 1 0) = blue"
  by (simp add: example_defs sprite_defs spec_raw_crop_def spec_frame_fits_def canvas_fits_def)

text \<open>
  Claim C2, amended. For a texture with \<open>Trimmed\<close> set, the sprite has the size
  \<open>SourceSize\<close>; each of its pixels outside the rectangle \<open>SpriteSourceSize\<close> is
  transparent; and each of its pixels inside that rectangle for which the raw crop of
  \<open>Frame\<close> has a corresponding pixel, the one at the same offset from the crop's corner
  as the pixel has from the rectangle's corner, equals that pixel. When \<open>Frame\<close> has
  the width and height of \<open>SpriteSourceSize\<close> and lies inside the sheet, every pixel
  inside the rectangle has such a counterpart and equals it. The hypotheses are that the
  canvas can be allocated and that the coordinates are small enough for 64-bit
  arithmetic not to wrap around.
\<close>

theorem trimmed_sprite_pixels:
  assumes tr: "Trimmed texture"
    and cf: "canvas_fits (SourceSize texture)" and ss: "small_size (SourceSize texture)"
    and sf: "small_frame (SpriteSourceSize texture)"
    and sx: "small (Frame.X (Frame texture))" "small (Frame.Y (Frame texture))"
    and sb: "small_rect (Bounds src)"
  shows "\<exists>sprite. build_sprite texture (Some src) = Some sprite \<and>
           Rect sprite = Size_Rect (SourceSize texture) \<and>
           (\<forall>p. Point_In p (Rect sprite) \<longrightarrow>
              (if Point_In p (Frame_Rect (SpriteSourceSize texture))
               then (\<forall>c. spec_raw_crop src (Frame texture)
                            (Pt (Point.X p - Frame.X (SpriteSourceSize texture))
                                (Point.Y p - Frame.Y (SpriteSourceSize texture))) = Some c
                          \<longrightarrow> Pix sprite p = c)
               else Pix sprite p = transparent)) \<and>
           (spec_frame_fits (Frame texture) src \<and>
            Frame.Width (Frame texture) = Frame.Width (SpriteSourceSize texture) \<and>
            Frame.Height (Frame texture) = Frame.Height (SpriteSourceSize texture) \<longrightarrow>
              (\<forall>p. Point_In p (Rect sprite) \<and> Point_In p (Frame_Rect (SpriteSourceSize texture)) \<longrightarrow>
                 spec_raw_crop src (Frame texture)
                   (Pt (Point.X p - Frame.X (SpriteSourceSize texture))
                       (Point.Y p - Frame.Y (SpriteSourceSize texture))) = Some (Pix sprite p)))"
proof -
  obtain sprite where b: "build_sprite texture (Some src) = Some sprite"
    using build_sprite_Some [OF cf] by blast
  have r: "Rect sprite = Size_Rect (SourceSize texture)"
    using b unfolding build_sprite_Some [OF cf] by auto
  have inside: "Pix sprite p = c"
    if "Point_In p (Rect sprite)" "Point_In p (Frame_Rect (SpriteSourceSize texture))"
      "spec_raw_crop src (Frame texture)
         (Pt (Point.X p - Frame.X (SpriteSourceSize texture))
             (Point.Y p - Frame.Y (SpriteSourceSize texture))) = Some c" for p c
  proof -
    from that(3) have q: "Point_In (Pt (Frame.X (Frame texture) + (Point.X p - Frame.X (SpriteSourceSize texture)))
                        (Frame.Y (Frame texture) + (Point.Y p - Frame.Y (SpriteSourceSize texture))))
              (Bounds src)"
      and c: "c = At src (Pt (Frame.X (Frame texture) + (Point.X p - Frame.X (SpriteSourceSize texture)))
                        (Frame.Y (Frame texture) + (Point.Y p - Frame.Y (SpriteSourceSize texture))))"
      by (auto simp: spec_raw_crop_def split: if_splits)
    show ?thesis
      unfolding c using that(1,2) q by (intro sprite_inside [OF cf ss b sf sx sb]) (simp_all add: r)
  qed
  have outside: "Pix sprite p = transparent"
    if "\<not> Point_In p (Frame_Rect (SpriteSourceSize texture))" for p
    using that by (rule sprite_outside [OF cf b])
  have total: "spec_raw_crop src (Frame texture)
                   (Pt (Point.X p - Frame.X (SpriteSourceSize texture))
                       (Point.Y p - Frame.Y (SpriteSourceSize texture))) = Some (Pix sprite p)"
    if f: "spec_frame_fits (Frame texture) src"
      "Frame.Width (Frame texture) = Frame.Width (SpriteSourceSize texture)"
      "Frame.Height (Frame texture) = Frame.Height (SpriteSourceSize texture)"
      and p: "Point_In p (Rect sprite)" "Point_In p (Frame_Rect (SpriteSourceSize texture))" for p
  proof -
    have o: "0 \<le> Point.X p - Frame.X (SpriteSourceSize texture)"
      "Point.X p - Frame.X (SpriteSourceSize texture) < Frame.Width (Frame texture)"
      "0 \<le> Point.Y p - Frame.Y (SpriteSourceSize texture)"
      "Point.Y p - Frame.Y (SpriteSourceSize texture) < Frame.Height (Frame texture)"
      using p(2) f(2,3) unfolding Frame_Rect_small [OF sf] by (auto simp: Point_In_def)
    note d = crop_defined [OF f(1) o]
    show ?thesis using inside [OF p d] d by simp
  qed
  have 1: "\<forall>p. Point_In p (Rect sprite) \<longrightarrow>
              (if Point_In p (Frame_Rect (SpriteSourceSize texture))
               then (\<forall>c. spec_raw_crop src (Frame texture)
                            (Pt (Point.X p - Frame.X (SpriteSourceSize texture))
                                (Point.Y p - Frame.Y (SpriteSourceSize texture))) = Some c
                          \<longrightarrow> Pix sprite p = c)
               else Pix sprite p = transparent)"
    using inside outside by simp
  have 2: "spec_frame_fits (Frame texture) src \<and>
            Frame.Width (Frame texture) = Frame.Width (SpriteSourceSize texture) \<and>
            Frame.Height (Frame texture) = Frame.Height (SpriteSourceSize texture) \<longrightarrow>
              (\<forall>p. Point_In p (Rect sprite) \<and> Point_In p (Frame_Rect (SpriteSourceSize texture)) \<longrightarrow>
                 spec_raw_crop src (Frame texture)
                   (Pt (Point.X p - Frame.X (SpriteSourceSize texture))
                       (Point.Y p - Frame.Y (SpriteSourceSize texture))) = Some (Pix sprite p))"
    using total by blast
  show ?thesis using b r 1 2 by blast
qed

theorem trimmed_sprite_pixels_witness:
  "Trimmed tex_trimmed \<and> canvas_fits (SourceSize tex_trimmed) \<and>
   small_size (SourceSize tex_trimmed) \<and> small_frame (SpriteSourceSize tex_trimmed) \<and>
   small (Frame.X (Frame tex_trimmed)) \<and> small (Frame.Y (Frame tex_trimmed)) \<and>
   small_rect (Bounds sheet_image) \<and>
   Point_In (Pt 1 0) (Frame_Rect (SpriteSourceSize tex_trimmed)) \<and>
   spec_raw_crop sheet_image (Frame tex_trimmed) (Pt 0 0) = Some white \<and>
   sprite_pixel tex_trimmed (Some sheet_image) (Pt 1 0) = Some white \<and>
   \<not> Point_In (Pt 0 0) (Frame_Rect (SpriteSourceSize tex_trimmed)) \<and>
   sprite_pixel tex_trimmed (Some sheet_image) (Pt 0 0) = Some transparent"
proof -
  have h: "Trimmed tex_trimmed" "canvas_fits (SourceSize tex_trimmed)"
    "small_size (SourceSize tex_trimmed)" "small_frame (SpriteSourceSize tex_trimmed)"
    "small (Frame.X (Frame tex_trimmed))" "small (Frame.Y (Frame tex_trimmed))"
    "small_rect (Bounds sheet_image)"
    by (simp_all add: example_defs canvas_fits_def small_size_def small_frame_def small_def
        small_rect_def)
  obtain sprite where s: "build_sprite tex_trimmed (Some sheet_image) = Some sprite"
    "Rect sprite = Size_Rect (SourceSize tex_trimmed)"
    and px: "\<And>p. Point_In p (Rect sprite) \<Longrightarrow>
              (if Point_In p (Frame_Rect (SpriteSourceSize tex_trimmed))
               then (\<forall>c. spec_raw_crop sheet_image (Frame tex_trimmed)
                            (Pt (Point.X p - Frame.X (SpriteSourceSize tex_trimmed))
                                (Point.Y p - Frame.Y (SpriteSourceSize tex_trimmed))) = Some c
                          \<longrightarrow> Pix sprite p = c)
               else Pix sprite p = transparent)"
    using trimmed_sprite_pixels [OF h] by blast
  have i1: "Point_In (Pt 1 0) (Rect sprite)" "Point_In (Pt 0 0) (Rect sprite)"
    by (simp_all add: s(2) Point_In_def, simp_all add: example_defs)
  have f: "Point_In (Pt 1 0) (Frame_Rect (SpriteSourceSize tex_trimmed))"
    "\<not> Point_In (Pt 0 0) (Frame_Rect (SpriteSourceSize tex_trimmed))"
    by (simp_all add: Frame_Rect_small [OF h(4)] Point_In_def, simp_all add: example_defs)
  have c: "spec_raw_crop sheet_image (Frame tex_trimmed) (Pt 0 0) = Some white"
    by (simp add: spec_raw_crop_def example_defs Point_In_def)
  have o: "Frame.X (SpriteSourceSize tex_trimmed) = 1" "Frame.Y (SpriteSourceSize tex_trimmed) = 0"
    by (simp_all add: example_defs)
  have "Pix sprite (Pt 1 0) = white" using px [OF i1(1)] f(1) c by (simp add: o)
  moreover have "Pix sprite (Pt 0 0) = transparent" using px [OF i1(2)] f(2) by simp
  ultimately show ?thesis
    using h f c sprite_pixel_eq [OF s(1) i1(1)] sprite_pixel_eq [OF s(1) i1(2)] by simp
qed

text \<open>
  Claim C1 says that every texture with \<open>Trimmed\<close> cleared is extracted as the raw
  crop of \<open>Frame\<close>. The program does not read the flag and places the pixels where
  \<open>SpriteSourceSize\<close> says: for \<open>tex_offset\<close>, whose flag is cleared, the sprite's
  pixel at \<open>(0, 0)\<close> is transparent while the crop's pixel there is red.
\<close>

theorem untrimmed_offset_counterexample:
  "\<not> Trimmed tex_offset \<and>
   Point_In (Pt 0 0) (Size_Rect (SourceSize tex_offset)) \<and>
   sprite_pixel tex_offset (Some sheet_image) (Pt 0 0) = Some transparent \<and>
   spec_raw_crop sheet_image (Frame tex_offset) (Pt 0 0) = Some red \<and>
   red \<noteq> transparent"
  by (simp add: example_defs sprite_defs spec_raw_crop_def)

text \<open>
  Claim C1, amended. For a texture with \<open>Trimmed\<close> cleared whose \<open>SpriteSourceSize\<close>
  is the whole canvas (corner \<open>(0, 0)\<close>, width and height of \<open>SourceSize\<close>), the sprite
  has the size \<open>SourceSize\<close> and each of its pixels equals the pixel of the raw crop of
  \<open>Frame\<close> at the same position; every pixel of the sprite has such a counterpart when
  \<open>Frame\<close> has the canvas's width and height and lies inside the sheet. The
  hypotheses on the ranges are those of claim C2.
\<close>

theorem untrimmed_sprite_is_crop:
  assumes tr: "\<not> Trimmed texture"
    and whole: "SpriteSourceSize texture =
       mk_frame 0 0 (Size.Width (SourceSize texture)) (Size.Height (SourceSize texture))"
    and cf: "canvas_fits (SourceSize texture)" and ss: "small_size (SourceSize texture)"
    and sx: "small (Frame.X (Frame texture))" "small (Frame.Y (Frame texture))"
    and sb: "small_rect (Bounds src)"
  shows "\<exists>sprite. build_sprite texture (Some src) = Some sprite \<and>
           Rect sprite = Size_Rect (SourceSize texture) \<and>
           (\<forall>p c. Point_In p (Rect sprite) \<and> spec_raw_crop src (Frame texture) p = Some c
                  \<longrightarrow> Pix sprite p = c) \<and>
           (spec_frame_fits (Frame texture) src \<and>
            Frame.Width (Frame texture) = Size.Width (SourceSize texture) \<and>
            Frame.Height (Frame texture) = Size.Height (SourceSize texture) \<longrightarrow>
              (\<forall>p. Point_In p (Rect sprite) \<longrightarrow>
                 spec_raw_crop src (Frame texture) p = Some (Pix sprite p)))"
proof -
  obtain sprite where b: "build_sprite texture (Some src) = Some sprite"
    using build_sprite_Some [OF cf] by blast
  have r: "Rect sprite = Size_Rect (SourceSize texture)"
    using b unfolding build_sprite_Some [OF cf] by auto
  have sf: "small_frame (SpriteSourceSize texture)"
    using ss by (simp add: whole mk_frame_def small_frame_def small_size_def small_def)
  have fr: "Frame_Rect (SpriteSourceSize texture) = Size_Rect (SourceSize texture)"
    unfolding Frame_Rect_small [OF sf]
    by (simp add: whole mk_frame_def Size_Rect_def Size_Min_def Size_Max_def)
  have crop: "Pix sprite p = c"
    if "Point_In p (Rect sprite)" "spec_raw_crop src (Frame texture) p = Some c" for p c
  proof -
    from that(2) have q: "Point_In (Pt (Frame.X (Frame texture) + Point.X p)
                        (Frame.Y (Frame texture) + Point.Y p)) (Bounds src)"
      and c: "c = At src (Pt (Frame.X (Frame texture) + Point.X p)
                        (Frame.Y (Frame texture) + Point.Y p))"
      by (auto simp: spec_raw_crop_def split: if_splits)
    have "Pix sprite p =
     At src (Pt (Frame.X (Frame texture) + (Point.X p - Frame.X (SpriteSourceSize texture)))
                (Frame.Y (Frame texture) + (Point.Y p - Frame.Y (SpriteSourceSize texture))))"
      using that(1) q
      by (intro sprite_inside [OF cf ss b sf sx sb]) (simp_all add: r fr, simp_all add: whole mk_frame_def)
    then show ?thesis by (simp add: c whole mk_frame_def)
  qed
  have total: "spec_raw_crop src (Frame texture) p = Some (Pix sprite p)"
    if f: "spec_frame_fits (Frame texture) src"
      "Frame.Width (Frame texture) = Size.Width (SourceSize texture)"
      "Frame.Height (Frame texture) = Size.Height (SourceSize texture)"
      and p: "Point_In p (Rect sprite)" for p
  proof -
    have o: "0 \<le> Point.X p" "Point.X p < Frame.Width (Frame texture)"
      "0 \<le> Point.Y p" "Point.Y p < Frame.Height (Frame texture)"
      using p f(2,3) by (auto simp: r Point_In_def)
    have "p = Pt (Point.X p) (Point.Y p)" by (simp add: Pt_def)
    with crop_defined [OF f(1) o]
    have d: "spec_raw_crop src (Frame texture) p =
               Some (At src (Pt (Frame.X (Frame texture) + Point.X p) (Frame.Y (Frame texture) + Point.Y p)))"
      by simp
    show ?thesis using crop [OF p d] d by simp
  qed
  have 1: "\<forall>p c. Point_In p (Rect sprite) \<and> spec_raw_crop src (Frame texture) p = Some c
                  \<longrightarrow> Pix sprite p = c"
    using crop by blast
  have 2: "spec_frame_fits (Frame texture) src \<and>
            Frame.Width (Frame texture) = Size.Width (SourceSize texture) \<and>
            Frame.Height (Frame texture) = Size.Height (SourceSize texture) \<longrightarrow>
              (\<forall>p. Point_In p (Rect sprite) \<longrightarrow>
                 spec_raw_crop src (Frame texture) p = Some (Pix sprite p))"
    using total by blast
  show ?thesis using b r 1 2 by blast
qed

theorem untrimmed_sprite_is_crop_witness:
  "\<not> Trimmed tex_row \<and>
   SpriteSourceSize tex_row =
     mk_frame 0 0 (Size.Width (SourceSize tex_row)) (Size.Height (SourceSize tex_row)) \<and>
   canvas_fits (SourceSize tex_row) \<and> small_size (SourceSize tex_row) \<and>
   small (Frame.X (Frame tex_row)) \<and> small (Frame.Y (Frame tex_row)) \<and>
   small_rect (Bounds sheet_image) \<and>
   spec_raw_crop sheet_image (Frame tex_row) (Pt 1 0) = Some blue \<and>
   sprite_pixel tex_row (Some sheet_image) (Pt 1 0) = Some blue"
proof -
  have h: "\<not> Trimmed tex_row"
    "SpriteSourceSize tex_row =
       mk_frame 0 0 (Size.Width (SourceSize tex_row)) (Size.Height (SourceSize tex_row))"
    "canvas_fits (SourceSize tex_row)" "small_size (SourceSize tex_row)"
    "small (Frame.X (Frame tex_row))" "small (Frame.Y (Frame tex_row))"
    "small_rect (Bounds sheet_image)"
    by (simp_all add: example_defs canvas_fits_def small_size_def small_def small_rect_def)
  obtain sprite where s: "build_sprite tex_row (Some sheet_image) = Some sprite"
    "Rect sprite = Size_Rect (SourceSize tex_row)"
    "\<And>p c. Point_In p (Rect sprite) \<Longrightarrow> spec_raw_crop sheet_image (Frame tex_row) p = Some c
                  \<Longrightarrow> Pix sprite p = c"
    using untrimmed_sprite_is_crop [OF h] by blast
  have i: "Point_In (Pt 1 0) (Rect sprite)"
    by (simp add: s(2) Point_In_def, simp add: example_defs)
  have c: "spec_raw_crop sheet_image (Frame tex_row) (Pt 1 0) = Some blue"
    by (simp add: spec_raw_crop_def example_defs Point_In_def)
  show ?thesis using h c s(3) [OF i c] sprite_pixel_eq [OF s(1) i] by simp
qed

section \<open>The errors of unpackTexture\<close>

text \<open>
  Claim C4 says that \<open>unpackTexture\<close> returns an error when a texture's frame lies
  outside the sheet. It does not: for \<open>tex_outside\<close>, whose frame has no point in common
  with the sheet, it returns nil on an operating system where nothing fails. On a nil
  image it does not return at all.
\<close>

theorem frame_outside_counterexample:
  "\<not> Point_In (Frame_Min (Frame tex_outside)) (Bounds sheet_image) \<and>
   Rectangle_Empty (Rectangle_Intersect (Frame_Rect (Frame tex_outside)) (Bounds sheet_image)) \<and>
   returned (unpackTexture plain_os (unpacker_of [] 1) tex_outside (Some sheet_image) empty_world)
     = Some None \<and>
   returned (unpackTexture plain_os (unpacker_of [] 1) tex_good None empty_world) = None"
  by (simp add: example_defs sprite_defs unpackTexture_def returned_def plain_os_def
      unpacker_of_def os_Create_def png_Encode_def empty_world_def)

text \<open>
  Claim C4, amended. On a nil image \<open>unpackTexture\<close> panics. On any other image, for a
  canvas that can be allocated, it returns an error exactly when creating the
  sub-directory (for a name with a slash), creating the output file, encoding the PNG
  (a canvas whose width or height is zero or \<open>2^32\<close> or more, or a write that fails) or
  closing the file fails. Where the regions lie plays no part.
\<close>

theorem unpackTexture_error_iff:
  assumes cf: "canvas_fits (SourceSize texture)"
  shows "unpackTexture os unpacker texture None w = Panic \<and>
    ((\<exists>err. returned (unpackTexture os unpacker texture (Some src) w) = Some (Some err)) \<longleftrightarrow>
       (CHR ''/'' \<in> set (FileName texture) \<and>
        MkdirAll_fails os (Join os [OutputDir unpacker, Join os (strings_Split (FileName texture))])) \<or>
       Create_fails os (Join os [OutputDir unpacker, FileName texture @ ''.png'']) \<or>
       Size.Width (SourceSize texture) = 0 \<or> Size.Height (SourceSize texture) = 0 \<or>
       Size.Width (SourceSize texture) \<ge> 2 ^ 32 \<or> Size.Height (SourceSize texture) \<ge> 2 ^ 32 \<or>
       Write_fails os (Join os [OutputDir unpacker, FileName texture @ ''.png'']) \<or>
       Close_fails os (Join os [OutputDir unpacker, FileName texture @ ''.png'']))"
proof -
  have n: "unpackTexture os unpacker texture None w = Panic"
    by (simp add: unpackTexture_def build_sprite_nil)
  have d: "Rectangle_Dx (Size_Rect (SourceSize texture)) = Size.Width (SourceSize texture)"
    "Rectangle_Dy (Size_Rect (SourceSize texture)) = Size.Height (SourceSize texture)"
    by (rule Size_Rect_D [OF cf])+
  have nn: "0 \<le> Size.Width (SourceSize texture)" "0 \<le> Size.Height (SourceSize texture)"
    using cf by (simp_all add: canvas_fits_def)
  have "(\<exists>err. returned (unpackTexture os unpacker texture (Some src) w) = Some (Some err)) \<longleftrightarrow>
       (CHR ''/'' \<in> set (FileName texture) \<and>
        MkdirAll_fails os (Join os [OutputDir unpacker, Join os (strings_Split (FileName texture))])) \<or>
       Create_fails os (Join os [OutputDir unpacker, FileName texture @ ''.png'']) \<or>
       Size.Width (SourceSize texture) = 0 \<or> Size.Height (SourceSize texture) = 0 \<or>
       Size.Width (SourceSize texture) \<ge> 2 ^ 32 \<or> Size.Height (SourceSize texture) \<ge> 2 ^ 32 \<or>
       Write_fails os (Join os [OutputDir unpacker, FileName texture @ ''.png'']) \<or>
       Close_fails os (Join os [OutputDir unpacker, FileName texture @ ''.png''])"
    using nn unfolding unpackTexture_def build_sprite_Some [OF cf]
    by (auto simp: returned_def Let_def os_MkdirAll_def os_Create_def png_Encode_def d)
  with n show ?thesis by blast
qed

theorem unpackTexture_error_iff_witness:
  "canvas_fits (SourceSize tex_bad) \<and> Size.Width (SourceSize tex_bad) = 0 \<and>
   returned (unpackTexture plain_os (unpacker_of [] 1) tex_bad (Some sheet_image) empty_world)
     = Some (Some (ErrEncode ''out/bad.png''))"
proof -
  have h: "canvas_fits (SourceSize tex_bad)" by (simp add: example_defs canvas_fits_def)
  have z: "Size.Width (SourceSize tex_bad) = 0" by (simp add: example_defs)
  from unpackTexture_error_iff [OF h, of plain_os "unpacker_of [] 1" empty_world sheet_image] z
  obtain err where e: "returned (unpackTexture plain_os (unpacker_of [] 1) tex_bad (Some sheet_image) empty_world)
     = Some (Some err)" by blast
  have "returned (unpackTexture plain_os (unpacker_of [] 1) tex_bad (Some sheet_image) empty_world)
     = Some (Some (ErrEncode ''out/bad.png''))"
    by (simp add: example_defs sprite_defs unpackTexture_def returned_def plain_os_def
      unpacker_of_def os_Create_def png_Encode_def empty_world_def)
  then show ?thesis using h z e by simp
qed

section \<open>Lemmas on runs\<close>

lemma run_invariant:
  assumes "\<And>a s s'. I s \<Longrightarrow> stp a s = Some s' \<Longrightarrow> I s'"
  shows "I s \<Longrightarrow> run stp acts s = Some s' \<Longrightarrow> I s'"
proof (induction acts arbitrary: s)
  case Nil
  then show ?case by simp
next
  case (Cons a acts)
  then show ?case using assms by (auto split: option.splits)
qed

lemma unpackTexture_trace:
  "unpackTexture os unpacker texture img w = Return r w' \<Longrightarrow>
   trace w' = trace w @ [EvUnpack (FileName texture)]"
  by (auto simp: unpackTexture_def Let_def os_MkdirAll_def os_Create_def png_Encode_def
      split: option.splits if_splits prod.splits bool.splits)


lemma pool_step_trace:
  "pool_step os unpacker img a p w = Steps (p', w') \<Longrightarrow> set (trace w) \<subseteq> set (trace w')"
  by (auto simp: pool_step_def
      split: pool_action.splits if_splits list.splits worker.splits exec.splits option.splits
      dest: unpackTexture_trace)

text \<open>Once every worker has left its loop, nothing moves in the pool any more.\<close>

lemma exited_pool_blocked:
  "list_all (\<lambda>x. x = Exited) (workers p) \<Longrightarrow> pool_step os unpacker img a p w = Blocked"
  by (auto simp: pool_step_def list_all_length split: pool_action.splits worker.splits)

lemma unpackSheet_step_trace:
  "unpackSheet_step os unpacker sheet a (s, w) = Some (s', w') \<Longrightarrow> set (trace w) \<subseteq> set (trace w')"
  by (auto simp: unpackSheet_step_def Let_def
      split: sheet_action.splits sheet_state.splits if_splits option.splits step.splits
      dest: pool_step_trace)

lemma unpackSheet_step_started:
  "unpackSheet_step os unpacker sheet a (s, w) = Some (s', w') \<Longrightarrow>
   s' \<noteq> NotStarted \<and> (s = NotStarted \<longrightarrow> EvOpen (sheet_path os unpacker sheet) \<in> set (trace w'))"
  by (auto simp: unpackSheet_step_def Let_def
      split: sheet_action.splits sheet_state.splits if_splits option.splits step.splits)

lemma Returned_stuck: "unpackSheet_step os unpacker sheet a (Returned r, w) = None"
  by (simp add: unpackSheet_step_def split: sheet_action.splits)

lemma run_Returned:
  "run (unpackSheet_step os unpacker sheet) acts (Returned r, w) = Some sw \<Longrightarrow> acts = []"
  by (cases acts) (simp_all add: Returned_stuck)


text \<open>
  So a pool all of whose workers have left can only return: whatever is still pending is
  never handed over, and the world stays as it is.
\<close>

lemma dead_pool_run:
  assumes dead: "list_all (\<lambda>x. x = Exited) (workers p)"
    and r: "run (unpackSheet_step os unpacker sheet) acts (Running img p, w) = Some (s', w')"
  shows "w' = w \<and> (s' = Running img p \<or> s' = Returned (first_error (results p)))"
proof (cases acts)
  case Nil
  then show ?thesis using r by simp
next
  case (Cons a rest)
  then obtain sw1 where 1: "unpackSheet_step os unpacker sheet a (Running img p, w) = Some sw1"
    and 2: "run (unpackSheet_step os unpacker sheet) rest sw1 = Some (s', w')"
    using r by (auto split: option.splits)
  from 1 dead have sw1: "sw1 = (Returned (first_error (results p)), w)"
    by (cases a) (simp_all add: unpackSheet_step_def exited_pool_blocked)
  with 2 have "rest = []" using run_Returned by blast
  with 2 sw1 show ?thesis by simp
qed



section \<open>Evaluating runs on the examples\<close>

lemma Sheets_unpacker_of [simp]: "Sheets (unpacker_of shs n) = shs"
  by (simp add: unpacker_of_def)

lemma build_good: "build_sprite tex_good (Some sheet_image) = Some good_sprite"
  by (simp add: build_sprite_def tex_good_def NewRGBA_def mul3NonNeg_def Rectangle_Dx_def
      Rectangle_Dy_def good_sprite_def Frame_Rect_def Frame_Min_def mk_frame_def mk_size_def)

lemma unpack_bad:
  "unpackTexture plain_os (unpacker_of shs n) tex_bad (Some sheet_image) w =
     Return (Some (ErrEncode ''out/bad.png''))
       (w\<lparr>trace := trace w @ [EvUnpack ''bad''], files := (files w)(''out/bad.png'' \<mapsto> Created)\<rparr>)"
  by (simp add: unpackTexture_def tex_bad_def mk_frame_def mk_size_def sheet_image_def sprite_defs
      plain_os_def unpacker_of_def os_Create_def png_Encode_def)

lemma unpack_good:
  "unpackTexture plain_os (unpacker_of shs n) tex_good (Some sheet_image) w =
     Return None
       (w\<lparr>trace := trace w @ [EvUnpack ''good''],
          files := (files w)(''out/good.png'' \<mapsto> PNG good_sprite)\<rparr>)"
  unfolding unpackTexture_def build_good
  by (simp add: tex_good_def mk_frame_def mk_size_def Let_def good_sprite_def
        Rectangle_Dx_def Rectangle_Dy_def
        plain_os_def unpacker_of_def os_Create_def png_Encode_def)

lemma start_two:
  "unpackSheet_step plain_os (unpacker_of shs n) two_textures Start (NotStarted, w) =
     Some (Running sheet_image (new_pool (unpacker_of shs n) two_textures),
           w\<lparr>trace := trace w @ [EvOpen ''in/sheet.png'', EvDecode ''in/sheet.png'']\<rparr>)"
  by (simp add: unpackSheet_step_def Let_def plain_os_def two_textures_def sheet_of_def unpacker_of_def)

lemma start_one:
  "unpackSheet_step plain_os (unpacker_of shs n) one_texture Start (NotStarted, w) =
     Some (Running sheet_image (new_pool (unpacker_of shs n) one_texture),
           w\<lparr>trace := trace w @ [EvOpen ''in/sheet.png'', EvDecode ''in/sheet.png'']\<rparr>)"
  by (simp add: unpackSheet_step_def Let_def plain_os_def one_texture_def sheet_of_def unpacker_of_def)

lemma start_missing:
  "unpackSheet_step plain_os (unpacker_of shs n) missing_sheet Start (NotStarted, w) =
     Some (Returned (Some (ErrOpenSheet ''in/missing.png'')),
           w\<lparr>trace := trace w @ [EvOpen ''in/missing.png'']\<rparr>)"
  by (simp add: unpackSheet_step_def Let_def plain_os_def missing_sheet_def sheet_of_def
      unpacker_of_def)

lemma example_pools:
  "new_pool (unpacker_of shs 1) two_textures =
     \<lparr>pending = [tex_bad, tex_good], workers = [Idle], results = []\<rparr>"
  "new_pool (unpacker_of shs 2) two_textures =
     \<lparr>pending = [tex_bad, tex_good], workers = [Idle, Idle], results = []\<rparr>"
  "new_pool (unpacker_of shs 1) one_texture =
     \<lparr>pending = [tex_good], workers = [Idle], results = []\<rparr>"
  "new_pool (unpacker_of shs 0) one_texture =
     \<lparr>pending = [tex_good], workers = [], results = []\<rparr>"
  by (simp_all add: new_pool_def unpacker_of_def two_textures_def one_texture_def sheet_of_def
      numeral_2_eq_2)

lemma run_two_textures_1:
  "run (unpackSheet_step plain_os (unpacker_of shs 1) two_textures)
     [Start, Work (Take 0), Work (Finish 0), Wait] (NotStarted, empty_world) =
   Some (Returned (Some (ErrEncode ''out/bad.png'')),
         \<lparr>files = [''out/bad.png'' \<mapsto> Created], dirs = {},
          trace = [EvOpen ''in/sheet.png'', EvDecode ''in/sheet.png'', EvUnpack ''bad'']\<rparr>)"
  by (simp add: start_two example_pools)
     (simp add: unpackSheet_step_def pool_step_def unpack_bad empty_world_def)

lemma run_two_textures_2:
  "run (unpackSheet_step plain_os (unpacker_of shs 2) two_textures)
     [Start, Work (Take 0), Work (Finish 0), Work (Take 1), Work (Finish 1), Work (Quit 1), Wait]
     (NotStarted, empty_world) =
   Some (Returned (Some (ErrEncode ''out/bad.png'')),
         \<lparr>files = [''out/bad.png'' \<mapsto> Created, ''out/good.png'' \<mapsto> PNG good_sprite], dirs = {},
          trace = [EvOpen ''in/sheet.png'', EvDecode ''in/sheet.png'', EvUnpack ''bad'',
                   EvUnpack ''good'']\<rparr>)"
  by (simp add: start_two example_pools)
     (simp add: unpackSheet_step_def pool_step_def unpack_bad unpack_good empty_world_def)

lemma run_one_texture_1:
  "run (unpackSheet_step plain_os (unpacker_of shs 1) one_texture)
     [Start, Work (Take 0), Work (Finish 0), Work (Quit 0), Wait] (NotStarted, empty_world) =
   Some (Returned None,
         \<lparr>files = [''out/good.png'' \<mapsto> PNG good_sprite], dirs = {},
          trace = [EvOpen ''in/sheet.png'', EvDecode ''in/sheet.png'', EvUnpack ''good'']\<rparr>)"
  by (simp add: start_one example_pools)
     (simp add: unpackSheet_step_def pool_step_def unpack_good empty_world_def)

lemma run_one_texture_0:
  "run (unpackSheet_step plain_os (unpacker_of shs 0) one_texture)
     [Start, Wait] (NotStarted, empty_world) =
   Some (Returned None,
         \<lparr>files = Map.empty, dirs = {},
          trace = [EvOpen ''in/sheet.png'', EvDecode ''in/sheet.png'']\<rparr>)"
  by (simp add: start_one example_pools)
     (simp add: unpackSheet_step_def empty_world_def)


lemma start_unpack:
  "unpack_start plain_os two_sheets empty_world =
     Inr (\<lparr>sheets = [NotStarted, NotStarted], reported = [False, False], firstErr = None,
            reports = []\<rparr>,
          \<lparr>files = Map.empty, dirs = {''out''}, trace = []\<rparr>)"
  by (simp add: unpack_start_def os_MkdirAll_def two_sheets_def empty_world_def numeral_2_eq_2)
     (simp add: plain_os_def unpacker_of_def)

lemma run_unpack:
  "run (unpack_step plain_os two_sheets)
     [InSheet 0 Start, InSheet 1 Start, InSheet 1 (Work (Take 0)), InSheet 1 (Work (Finish 0)),
      InSheet 1 (Work (Quit 0)), InSheet 1 Wait, Done 1, Done 0]
     (\<lparr>sheets = [NotStarted, NotStarted], reported = [False, False], firstErr = None,
            reports = []\<rparr>,
          \<lparr>files = Map.empty, dirs = {''out''}, trace = []\<rparr>) =
   Some (\<lparr>sheets = [Returned (Some (ErrOpenSheet ''in/missing.png'')), Returned None],
           reported = [True, True], firstErr = Some (ErrOpenSheet ''in/missing.png''),
           reports = [None, Some (ErrOpenSheet ''in/missing.png'')]\<rparr>,
         \<lparr>files = [''out/good.png'' \<mapsto> PNG good_sprite], dirs = {''out''},
          trace = [EvOpen ''in/missing.png'', EvOpen ''in/sheet.png'', EvDecode ''in/sheet.png'',
                   EvUnpack ''good'']\<rparr>)"
  by (simp add: unpack_step_def two_sheets_def start_missing start_one example_pools)
     (simp add: unpack_step_def unpackSheet_step_def pool_step_def unpack_good)

section \<open>unpackSheet: one decoding per sheet\<close>



section \<open>unpackSheet: a worker leaves after an error\<close>

lemma single_inv_step:
  assumes "single_inv sw"
    and "unpackSheet_step plain_os (unpacker_of [two_textures] 1) two_textures a sw = Some sw'"
  shows "single_inv sw'"
proof (cases sw)
  case (Pair s w)
  show ?thesis
  proof (cases a)
    case Start
    show ?thesis
    proof (cases "s = NotStarted")
      case True
      then show ?thesis using assms Pair Start
        by (auto simp: start_two example_pools single_inv_def)
    next
      case False
      then have "unpackSheet_step plain_os (unpacker_of [two_textures] 1) two_textures Start (s, w) = None"
        by (cases s) (simp_all add: unpackSheet_step_def)
      then show ?thesis using assms Pair Start by simp
    qed
  next
    case (Work pa)
    then show ?thesis using assms Pair
      by (cases pa)
         (auto simp: unpackSheet_step_def single_inv_def Let_def pool_step_def unpack_bad
          split: sheet_state.splits step.splits if_splits)
  next
    case Wait
    then show ?thesis using assms Pair
      by (auto simp: unpackSheet_step_def single_inv_def Let_def
          split: sheet_state.splits if_splits)
  qed
qed

text \<open>
  Claim C5 says that every texture of a sheet is attempted however many of them fail.
  With one worker and the sheet \<open>two_textures\<close>, whose first texture fails, no run ever
  calls \<open>unpackTexture\<close> on the second texture or writes its file, and every run that
  returns returns the first texture's error: the worker leaves its loop after the error
  and nobody is left to receive the second texture.
\<close>

theorem single_worker_abandons_good:
  assumes "run (unpackSheet_step plain_os (unpacker_of [two_textures] 1) two_textures) acts
             (NotStarted, empty_world) = Some (s, w)"
  shows "EvUnpack ''good'' \<notin> set (trace w) \<and> files w ''out/good.png'' = None \<and>
         (\<forall>r. s = Returned r \<longrightarrow> r = Some (ErrEncode ''out/bad.png''))"
proof -
  have "single_inv (s, w)"
    by (rule run_invariant [where I = single_inv, OF single_inv_step _ assms])
       (simp_all add: single_inv_def empty_world_def)
  then show ?thesis by (auto simp: single_inv_def)
qed

theorem single_worker_abandons_good_witness:
  "state_after (run (unpackSheet_step plain_os (unpacker_of [two_textures] 1) two_textures)
     [Start, Work (Take 0), Work (Finish 0), Wait] (NotStarted, empty_world)) =
     Some (Returned (Some (ErrEncode ''out/bad.png''))) \<and>
   trace_after (run (unpackSheet_step plain_os (unpacker_of [two_textures] 1) two_textures)
     [Start, Work (Take 0), Work (Finish 0), Wait] (NotStarted, empty_world)) =
     [EvOpen ''in/sheet.png'', EvDecode ''in/sheet.png'', EvUnpack ''bad''] \<and>
   file_after (run (unpackSheet_step plain_os (unpacker_of [two_textures] 1) two_textures)
     [Start, Work (Take 0), Work (Finish 0), Wait] (NotStarted, empty_world)) ''out/good.png'' = None"
proof -
  note r = run_two_textures_1 [of "[two_textures]"]
  have "files \<lparr>files = [''out/bad.png'' \<mapsto> Created], dirs = {},
          trace = [EvOpen ''in/sheet.png'', EvDecode ''in/sheet.png'', EvUnpack ''bad'']\<rparr>
          ''out/good.png'' = None"
    using single_worker_abandons_good [OF r] by blast
  then show ?thesis
    by (simp only: r) (simp add: state_after_def trace_after_def file_after_def)
qed

text \<open>
  Claim C8 says that the worker count never changes which files are written. On the
  sheet \<open>two_textures\<close> the complete run with one worker leaves no file for the second
  texture, and the complete run with two workers writes it. On the sheet
  \<open>one_texture\<close>, where nothing fails, the run with no worker at all returns nil and
  writes nothing, and the run with one worker writes the file.
\<close>

theorem worker_count_changes_files:
  "state_after (run (unpackSheet_step plain_os (unpacker_of [two_textures] 1) two_textures)
     [Start, Work (Take 0), Work (Finish 0), Wait] (NotStarted, empty_world)) =
     Some (Returned (Some (ErrEncode ''out/bad.png''))) \<and>
   file_after (run (unpackSheet_step plain_os (unpacker_of [two_textures] 1) two_textures)
     [Start, Work (Take 0), Work (Finish 0), Wait] (NotStarted, empty_world)) ''out/good.png'' = None \<and>
   state_after (run (unpackSheet_step plain_os (unpacker_of [two_textures] 2) two_textures)
     [Start, Work (Take 0), Work (Finish 0), Work (Take 1), Work (Finish 1), Work (Quit 1), Wait]
     (NotStarted, empty_world)) =
     Some (Returned (Some (ErrEncode ''out/bad.png''))) \<and>
   file_after (run (unpackSheet_step plain_os (unpacker_of [two_textures] 2) two_textures)
     [Start, Work (Take 0), Work (Finish 0), Work (Take 1), Work (Finish 1), Work (Quit 1), Wait]
     (NotStarted, empty_world)) ''out/good.png'' = Some (PNG good_sprite) \<and>
   state_after (run (unpackSheet_step plain_os (unpacker_of [one_texture] 0) one_texture)
     [Start, Wait] (NotStarted, empty_world)) = Some (Returned None) \<and>
   file_after (run (unpackSheet_step plain_os (unpacker_of [one_texture] 0) one_texture)
     [Start, Wait] (NotStarted, empty_world)) ''out/good.png'' = None \<and>
   state_after (run (unpackSheet_step plain_os (unpacker_of [one_texture] 1) one_texture)
     [Start, Work (Take 0), Work (Finish 0), Work (Quit 0), Wait] (NotStarted, empty_world)) =
     Some (Returned None) \<and>
   file_after (run (unpackSheet_step plain_os (unpacker_of [one_texture] 1) one_texture)
     [Start, Work (Take 0), Work (Finish 0), Work (Quit 0), Wait] (NotStarted, empty_world))
     ''out/good.png'' = Some (PNG good_sprite)"
  by (simp only: run_two_textures_1 run_two_textures_2 run_one_texture_0 run_one_texture_1)
     (simp add: state_after_def file_after_def)

section \<open>unpack: the first error of the sheets\<close>

lemma first_error_append:
  "first_error (rs @ [r]) = (case first_error rs of Some e \<Rightarrow> Some e | None \<Rightarrow> r)"
  by (induction rs) (auto split: option.splits)

lemma first_error_None: "first_error rs = None \<longleftrightarrow> (\<forall>r \<in> set rs. r = None)"
  by (induction rs) (auto split: option.splits)

lemma first_error_Some: "first_error rs = Some e \<Longrightarrow> Some e \<in> set rs"
  by (induction rs) (auto split: option.splits)

lemma unpack_inv_start:
  "unpack_start os unpacker w = Inr sw \<Longrightarrow> unpack_inv os unpacker sw"
  by (auto simp: unpack_start_def unpack_inv_def split: option.splits)

lemma unpack_inv_step:
  assumes i: "unpack_inv os unpacker sw" and s: "unpack_step os unpacker a sw = Some sw'"
  shows "unpack_inv os unpacker sw'"
proof (cases sw)
  case (Pair st w)
  note i = i [unfolded Pair unpack_inv_def prod.case]
  show ?thesis
  proof (cases a)
    case (InSheet k sa)
    from s obtain s' w' where k: "k < length (Sheets unpacker)"
      and st: "unpackSheet_step os unpacker (Sheets unpacker ! k) sa (sheets st ! k, w) = Some (s', w')"
      and sw': "sw' = (st\<lparr>sheets := (sheets st)[k := s']\<rparr>, w')"
      by (auto simp: unpack_step_def Pair InSheet split: if_splits option.splits)
    have nr: "\<not> reported st ! k"
    proof
      assume "reported st ! k"
      then obtain r where "sheets st ! k = Returned r" using i k by blast
      with st show False by (simp add: Returned_stuck)
    qed
    have tr: "set (trace w) \<subseteq> set (trace w')" using st by (rule unpackSheet_step_trace)
    have ns: "s' \<noteq> NotStarted"
      "sheets st ! k = NotStarted \<Longrightarrow> EvOpen (sheet_path os unpacker (Sheets unpacker ! k)) \<in> set (trace w')"
      using unpackSheet_step_started [OF st] by auto
    have a: "\<forall>j < length (Sheets unpacker).
           reported st ! j \<longrightarrow> (\<exists>r. (sheets st)[k := s'] ! j = Returned r \<and> r \<in> set (reports st))"
    proof (intro allI impI)
      fix j assume j: "j < length (Sheets unpacker)" "reported st ! j"
      then have "j \<noteq> k" using nr by auto
      moreover obtain r where "sheets st ! j = Returned r" "r \<in> set (reports st)"
        using i j by blast
      ultimately show "\<exists>r. (sheets st)[k := s'] ! j = Returned r \<and> r \<in> set (reports st)"
        by auto
    qed
    have b: "\<forall>r \<in> set (reports st).
           \<exists>j < length (Sheets unpacker). reported st ! j \<and> (sheets st)[k := s'] ! j = Returned r"
    proof
      fix r assume "r \<in> set (reports st)"
      then obtain j where j: "j < length (Sheets unpacker)" "reported st ! j" "sheets st ! j = Returned r"
        using i by blast
      then have "j \<noteq> k" using nr by auto
      then show "\<exists>j < length (Sheets unpacker). reported st ! j \<and> (sheets st)[k := s'] ! j = Returned r"
        using j by auto
    qed
    have c: "\<forall>j < length (Sheets unpacker).
           (sheets st)[k := s'] ! j \<noteq> NotStarted \<longrightarrow>
           EvOpen (sheet_path os unpacker (Sheets unpacker ! j)) \<in> set (trace w')"
    proof (intro allI impI)
      fix j assume j: "j < length (Sheets unpacker)" "(sheets st)[k := s'] ! j \<noteq> NotStarted"
      show "EvOpen (sheet_path os unpacker (Sheets unpacker ! j)) \<in> set (trace w')"
      proof (cases "j = k")
        case True
        show ?thesis
        proof (cases "sheets st ! k = NotStarted")
          case True
          then show ?thesis using ns(2) \<open>j = k\<close> by simp
        next
          case False
          then show ?thesis using i k tr \<open>j = k\<close> by blast
        qed
      next
        case False
        then show ?thesis using i j tr by auto
      qed
    qed
    show ?thesis
      unfolding sw' unpack_inv_def prod.case using i a b c by simp
  next
    case (Done k)
    from s obtain r where k: "k < length (sheets st)" "k < length (reported st)" "\<not> reported st ! k"
      and rk: "sheets st ! k = Returned r"
      and sw': "sw' = (st\<lparr>reported := (reported st)[k := True],
                          firstErr := (case r of None \<Rightarrow> firstErr st
                                       | Some err \<Rightarrow> (if firstErr st = None then Some err else firstErr st)),
                          reports := reports st @ [r]\<rparr>, w)"
      by (auto simp: unpack_step_def Pair Done split: if_splits sheet_state.splits)
    have f: "(case r of None \<Rightarrow> firstErr st
              | Some err \<Rightarrow> (if firstErr st = None then Some err else firstErr st))
             = first_error (reports st @ [r])"
      using i by (auto simp: first_error_append split: option.splits)
    have a: "\<forall>j < length (Sheets unpacker).
           (reported st)[k := True] ! j \<longrightarrow>
             (\<exists>r'. sheets st ! j = Returned r' \<and> r' \<in> set (reports st @ [r]))"
      using i k rk by (auto simp: nth_list_update)
    have b: "\<forall>r' \<in> set (reports st @ [r]).
           \<exists>j < length (Sheets unpacker). (reported st)[k := True] ! j \<and> sheets st ! j = Returned r'"
    proof
      fix r' assume "r' \<in> set (reports st @ [r])"
      then consider "r' \<in> set (reports st)" | "r' = r" by auto
      then show "\<exists>j < length (Sheets unpacker). (reported st)[k := True] ! j \<and> sheets st ! j = Returned r'"
      proof cases
        case 1
        then obtain j where "j < length (Sheets unpacker)" "reported st ! j" "sheets st ! j = Returned r'"
          using i by blast
        then show ?thesis using k by (auto simp: nth_list_update)
      next
        case 2
        then show ?thesis using i k rk by (auto simp: nth_list_update)
      qed
    qed
    show ?thesis
      unfolding sw' unpack_inv_def prod.case using i a b f by simp
  qed
qed

lemma unpack_inv_run:
  assumes "unpack_start os unpacker w = Inr sw0" "run (unpack_step os unpacker) acts sw0 = Some sw"
  shows "unpack_inv os unpacker sw"
  by (rule run_invariant [where I = "unpack_inv os unpacker", OF unpack_inv_step _ assms(2)])
     (simp_all add: unpack_inv_start [OF assms(1)])

text \<open>
  Claim C6 says that \<open>unpack\<close> returns nil exactly when every sheet returned nil, and
  otherwise a sheet's error, after all sheets have finished. When the output directory
  cannot be created, \<open>unpack\<close> returns that error at once: for a pack without sheets
  (all of whose sheets, none, returned nil), and for a pack with sheets before any of
  them is started.
\<close>

theorem mkdir_failure_counterexample:
  "MkdirAll_fails readonly_os ''out'' \<and>
   Sheets (unpacker_of [] 1) = [] \<and>
   unpack_start readonly_os (unpacker_of [] 1) empty_world = Inl (ErrMkdirAll ''out'') \<and>
   unpack_start readonly_os two_sheets empty_world = Inl (ErrMkdirAll ''out'')"
  by (simp add: unpack_start_def os_MkdirAll_def readonly_os_def two_sheets_def)
     (simp add: unpacker_of_def)

text \<open>
  Claim C6, amended. Once the output directory has been created, \<open>unpack\<close> returns
  only when every sheet's \<open>unpackSheet\<close> has returned, whatever the schedule; it then
  returns nil if and only if every sheet returned nil, and otherwise the first error in
  the order in which the sheets' goroutines took the mutex, which is the error of one of
  the sheets. No sheet is skipped because another failed: the file of every sheet has
  been opened.
\<close>

theorem unpack_first_error:
  assumes start: "unpack_start os unpacker w = Inr sw0"
    and r: "run (unpack_step os unpacker) acts sw0 = Some (st, w')"
    and ret: "unpack_result st = Some res"
  shows "(res = None \<longleftrightarrow> (\<forall>k < length (Sheets unpacker). sheets st ! k = Returned None)) \<and>
         res = first_error (reports st) \<and>
         (\<forall>e. res = Some e \<longrightarrow>
            (\<exists>k < length (Sheets unpacker). sheets st ! k = Returned (Some e))) \<and>
         (\<forall>k < length (Sheets unpacker).
            (\<exists>rk. sheets st ! k = Returned rk) \<and>
            EvOpen (sheet_path os unpacker (Sheets unpacker ! k)) \<in> set (trace w'))"
proof -
  have i: "unpack_inv os unpacker (st, w')" by (rule unpack_inv_run [OF start r])
  note i = i [unfolded unpack_inv_def prod.case]
  have all: "\<forall>k < length (Sheets unpacker). reported st ! k"
    and res: "res = firstErr st"
    using ret i by (auto simp: unpack_result_def list_all_length split: if_splits)
  have ret: "\<forall>k < length (Sheets unpacker). \<exists>rk. sheets st ! k = Returned rk \<and> rk \<in> set (reports st)"
    using i all by blast
  have 1: "res = first_error (reports st)" using res i by simp
  have 2: "res = None \<longleftrightarrow> (\<forall>k < length (Sheets unpacker). sheets st ! k = Returned None)"
  proof
    assume "res = None"
    then have n: "\<forall>r \<in> set (reports st). r = None" using 1 by (simp add: first_error_None)
    show "\<forall>k < length (Sheets unpacker). sheets st ! k = Returned None"
      using ret n by metis
  next
    assume a: "\<forall>k < length (Sheets unpacker). sheets st ! k = Returned None"
    have "\<forall>r \<in> set (reports st). r = None"
    proof
      fix r' assume "r' \<in> set (reports st)"
      then obtain k where "k < length (Sheets unpacker)" "sheets st ! k = Returned r'"
        using i by blast
      with a show "r' = None" by auto
    qed
    then show "res = None" using 1 by (simp add: first_error_None)
  qed
  have 3: "\<forall>e. res = Some e \<longrightarrow>
            (\<exists>k < length (Sheets unpacker). sheets st ! k = Returned (Some e))"
  proof (intro allI impI)
    fix e assume "res = Some e"
    then have "Some e \<in> set (reports st)" using 1 first_error_Some by metis
    then show "\<exists>k < length (Sheets unpacker). sheets st ! k = Returned (Some e)"
      using i by blast
  qed
  have 4: "\<forall>k < length (Sheets unpacker).
            (\<exists>rk. sheets st ! k = Returned rk) \<and>
            EvOpen (sheet_path os unpacker (Sheets unpacker ! k)) \<in> set (trace w')"
  proof (intro allI impI)
    fix k assume k: "k < length (Sheets unpacker)"
    then obtain rk where "sheets st ! k = Returned rk" using ret by blast
    then show "(\<exists>rk. sheets st ! k = Returned rk) \<and>
            EvOpen (sheet_path os unpacker (Sheets unpacker ! k)) \<in> set (trace w')"
      using i k by auto
  qed
  show ?thesis using 1 2 3 4 by blast
qed

theorem unpack_first_error_witness:
  "unpack_start plain_os two_sheets empty_world =
     Inr (\<lparr>sheets = [NotStarted, NotStarted], reported = [False, False], firstErr = None,
            reports = []\<rparr>,
          \<lparr>files = Map.empty, dirs = {''out''}, trace = []\<rparr>) \<and>
   unpack_result_after
     (run (unpack_step plain_os two_sheets)
       [InSheet 0 Start, InSheet 1 Start, InSheet 1 (Work (Take 0)), InSheet 1 (Work (Finish 0)),
        InSheet 1 (Work (Quit 0)), InSheet 1 Wait, Done 1, Done 0]
       (\<lparr>sheets = [NotStarted, NotStarted], reported = [False, False], firstErr = None,
            reports = []\<rparr>,
        \<lparr>files = Map.empty, dirs = {''out''}, trace = []\<rparr>)) =
     Some (Some (ErrOpenSheet ''in/missing.png'')) \<and>
   unpack_file_after
     (run (unpack_step plain_os two_sheets)
       [InSheet 0 Start, InSheet 1 Start, InSheet 1 (Work (Take 0)), InSheet 1 (Work (Finish 0)),
        InSheet 1 (Work (Quit 0)), InSheet 1 Wait, Done 1, Done 0]
       (\<lparr>sheets = [NotStarted, NotStarted], reported = [False, False], firstErr = None,
            reports = []\<rparr>,
        \<lparr>files = Map.empty, dirs = {''out''}, trace = []\<rparr>)) ''out/good.png'' =
     Some (PNG good_sprite) \<and>
   first_error [None, Some (ErrOpenSheet ''in/missing.png'')] = Some (ErrOpenSheet ''in/missing.png'')"
proof -
  have r: "unpack_result \<lparr>sheets = [Returned (Some (ErrOpenSheet ''in/missing.png'')), Returned None],
           reported = [True, True], firstErr = Some (ErrOpenSheet ''in/missing.png''),
           reports = [None, Some (ErrOpenSheet ''in/missing.png'')]\<rparr> =
         Some (Some (ErrOpenSheet ''in/missing.png''))"
    by (simp add: unpack_result_def)
  have "Some (ErrOpenSheet ''in/missing.png'') =
      first_error [None, Some (ErrOpenSheet ''in/missing.png'')]"
    using unpack_first_error [OF start_unpack run_unpack r] by simp
  then show ?thesis
    by (simp only: start_unpack run_unpack)
       (simp add: r unpack_result_after_def unpack_file_after_def)
qed

end
